theory Spec2Isabelle
  imports Complex_Main
begin

section \<open>Shared vocabulary of the route handlers\<close>

text \<open>
  Every route handler is an async function from a request to a JSON response. The model
  makes the collaborators explicit: the relational store is a record of tables, the
  key-value store is a record of sorted sets, counters and cached values, and each vendor
  call is an outcome supplied by the environment. A thrown exception is the \<open>Inl\<close>
  side of a sum.
\<close>

datatype json =
    JNull
  | JBool bool
  | JNum real
  | JStr string
  | JArr "json list"
  | JObj "(string \<times> json) list"

text \<open>
  The handlers tell two kinds of exception apart: \<open>error instanceof z.ZodError\<close>, and
  any other \<open>Error\<close>, of which they read the message. Both carry a message.
\<close>

datatype error = ZodError string | Error string

fun message :: "error \<Rightarrow> string" where
  "message (ZodError m) = m"
| "message (Error m) = m"

fun isZodError :: "error \<Rightarrow> bool" where
  "isZodError (ZodError m) = True"
| "isZodError (Error m) = False"

text \<open>\<open>NextResponse.json(body, { status })\<close>; the status defaults to 200.\<close>

record response =
  status :: nat
  body :: json

definition respond :: "nat \<Rightarrow> json \<Rightarrow> response" where
  "respond st b = \<lparr> status = st, body = b \<rparr>"

definition failure :: "nat \<Rightarrow> string \<Rightarrow> response" where
  "failure st msg = respond st (JObj [(''success'', JBool False), (''error'', JStr msg)])"

definition success :: "json \<Rightarrow> response" where
  "success d = respond 200 (JObj [(''success'', JBool True), (''data'', d)])"

subsection \<open>Strings\<close>

fun startsWith :: "string \<Rightarrow> string \<Rightarrow> bool" where
  "startsWith s [] = True"
| "startsWith [] (p # ps) = False"
| "startsWith (c # cs) (p # ps) = (c = p \<and> startsWith cs ps)"

text \<open>\<open>String.prototype.includes\<close>: the needle occurs at some position.\<close>

fun includes_str :: "string \<Rightarrow> string \<Rightarrow> bool" where
  "includes_str [] sub = (sub = [])"
| "includes_str (c # cs) sub = (startsWith (c # cs) sub \<or> includes_str cs sub)"

subsection \<open>The request and its body\<close>

text \<open>
  A request is its headers (\<open>request.headers.get(name)\<close>) and its body.
  \<open>await request.json()\<close> throws a SyntaxError (with the parser's message) on a body
  that is not JSON; \<open>Schema.parse(body)\<close> throws a ZodError (with the issues as its
  message) on a body of the wrong shape; otherwise the handler holds the validated value.
\<close>

datatype 'a parsed_body = NotJson string | ZodInvalid string | Validated 'a

fun parse_body :: "'a parsed_body \<Rightarrow> error + 'a" where
  "parse_body (NotJson m) = Inl (Error m)"
| "parse_body (ZodInvalid m) = Inl (ZodError m)"
| "parse_body (Validated v) = Inr v"

record 'a request =
  headers :: "string \<Rightarrow> string option"
  payload :: "'a parsed_body"

text \<open>
  The schemas that take a platform take it as \<open>z.enum(['ios', 'android'])\<close>; the string a
  handler then holds is one of these two.
\<close>

datatype mobile_platform = ios | android

fun platform_str :: "mobile_platform \<Rightarrow> string" where
  "platform_str ios = ''ios''"
| "platform_str android = ''android''"

subsection \<open>lib/auth.ts\<close>

record AuthUser =
  userId :: string
  email :: string

text \<open>
  \<open>verifyAuth\<close>: the header must start with \<open>Bearer \<close>; the token after it is checked
  by the JWT library, here the parameter \<open>jwt\<close> (None when the library throws).
\<close>

definition verifyAuth :: "(string \<Rightarrow> AuthUser option) \<Rightarrow> 'a request \<Rightarrow> error + AuthUser" where
  "verifyAuth jwt req =
     (case headers req ''authorization'' of
        None \<Rightarrow> Inl (Error ''Missing or invalid authorization header'')
      | Some authHeader \<Rightarrow>
          if authHeader = [] then Inl (Error ''Missing or invalid authorization header'')
          else if \<not> startsWith authHeader ''Bearer ''
          then Inl (Error ''Missing or invalid authorization header'')
          else (case jwt (drop 7 authHeader) of
                  None \<Rightarrow> Inl (Error ''Invalid or expired token'')
                | Some decoded \<Rightarrow> Inr decoded))"

section \<open>The relational store\<close>

text \<open>
  The tables of the migration, with the columns the handlers read or write. The enumerated
  columns that the handlers write as literals are datatypes, the ones they copy from the
  request are strings; a nullable column is an option; a timestamp is a number of
  milliseconds. A table is the list of its rows in insertion order. The id of a new row
  comes from the environment (\<open>gen_id\<close>); the telemetry and quarantine rows are never
  read back by id and are kept without one. A quarantine row is kept as the handler hands
  it over, a list of column names with their values.
\<close>

datatype command_type = LOCATE | RING | LOCK | WIPE

datatype command_status = PENDING | SENT | EXECUTED | FAILED

datatype threat_type = HASH | PACKAGE | URL | BEHAVIOR

text \<open>
  \<open>Device.platform\<close> is of the enumerated type \<open>Platform\<close>, created by the migration
  with the values \<open>ANDROID\<close> and \<open>IOS\<close>. The client checks the arguments of a query
  before it runs it: a string given for such a column must be one of these two names, in
  this spelling.
\<close>

datatype Platform = ANDROID | IOS

definition Platform_of :: "string \<Rightarrow> Platform option" where
  "Platform_of name =
     (if name = ''ANDROID'' then Some ANDROID
      else if name = ''IOS'' then Some IOS
      else None)"

text \<open>
  An \<open>INTEGER\<close> column holds 32 bits; a value outside them is refused.
\<close>

definition int4 :: "int \<Rightarrow> bool" where
  "int4 n \<longleftrightarrow> - 2147483648 \<le> n \<and> n \<le> 2147483647"

record User =
  u_id :: string
  u_email :: string
  u_name :: "string option"
  u_passwordHash :: "string option"
  u_updatedAt :: int

record Device =
  d_id :: string
  d_userId :: string
  d_deviceId :: string
  d_deviceName :: string
  d_platform :: Platform
  d_osVersion :: string
  d_appVersion :: string
  d_lastSeen :: int
  d_isActive :: bool

record PushToken =
  pt_id :: string
  pt_deviceId :: string
  pt_token :: string
  pt_platform :: string
  pt_isActive :: bool

record ThreatSignature =
  ts_id :: string
  ts_type :: threat_type
  ts_signature :: string
  ts_threatName :: string
  ts_severity :: string
  ts_category :: string
  ts_isActive :: bool

record ScanLog =
  sl_id :: string
  sl_deviceId :: string
  sl_scanType :: string
  sl_status :: string
  sl_filesScanned :: int
  sl_threatsFound :: int
  sl_startedAt :: int
  sl_completedAt :: "int option"
  sl_duration :: "int option"
  sl_metadata :: "json option"

record AntiTheftCommand =
  ac_id :: string
  ac_deviceId :: string
  ac_commandType :: command_type
  ac_status :: command_status
  ac_issuedBy :: string
  ac_executedAt :: "int option"
  ac_metadata :: json

record Subscription =
  sub_id :: string
  sub_userId :: string
  sub_tier :: string
  sub_status :: string
  sub_platform :: string
  sub_trialEndsAt :: "int option"
  sub_currentPeriodStart :: "int option"
  sub_currentPeriodEnd :: "int option"

record TelemetryLog =
  tl_userId :: string
  tl_eventType :: string
  tl_eventData :: json

record store =
  users :: "User list"
  devices :: "Device list"
  pushTokens :: "PushToken list"
  threatSignatures :: "ThreatSignature list"
  scanLogs :: "ScanLog list"
  quarantines :: "(string \<times> json) list list"
  antiTheftCommands :: "AntiTheftCommand list"
  subscriptions :: "Subscription list"
  telemetryLogs :: "TelemetryLog list"

text \<open>
  \<open>update({ where: <unique key>, data })\<close> changes the row with that key and throws when
  there is none. \<open>modify\<close> is the change itself.
\<close>

definition modify :: "('a \<Rightarrow> bool) \<Rightarrow> ('a \<Rightarrow> 'a) \<Rightarrow> 'a list \<Rightarrow> 'a list" where
  "modify p f rows = map (\<lambda>r. if p r then f r else r) rows"

definition update_unique :: "('a \<Rightarrow> bool) \<Rightarrow> ('a \<Rightarrow> 'a) \<Rightarrow> 'a list \<Rightarrow> error + 'a list" where
  "update_unique p f rows =
     (if list_ex p rows then Inr (modify p f rows)
      else Inl (Error ''Record to update not found.''))"

text \<open>\<open>create\<close> on a table with a primary key: the store refuses a key it already holds.\<close>

definition create_keyed :: "('a \<Rightarrow> string) \<Rightarrow> 'a \<Rightarrow> 'a list \<Rightarrow> error + 'a list" where
  "create_keyed key row rows =
     (if list_ex (\<lambda>r. key r = key row) rows
      then Inl (Error ''Unique constraint failed on the fields: (`id`)'')
      else Inr (rows @ [row]))"

text \<open>
  \<open>upsert({ where: <unique key>, update, create })\<close>: change the row with that key, or
  insert the new one; the result is the row as stored.
\<close>

definition upsert :: "('a \<Rightarrow> string) \<Rightarrow> ('a \<Rightarrow> bool) \<Rightarrow> ('a \<Rightarrow> 'a) \<Rightarrow> 'a \<Rightarrow> 'a list \<Rightarrow> error + ('a \<times> 'a list)" where
  "upsert key p change new rows =
     (case find p rows of
        Some row \<Rightarrow> Inr (change row, modify p change rows)
      | None \<Rightarrow>
          (case create_keyed key new rows of
             Inl e \<Rightarrow> Inl e
           | Inr rows' \<Rightarrow> Inr (new, rows')))"

section \<open>The key-value store and lib/rate-limit.ts\<close>

text \<open>
  The limiter keeps, for each key, a sorted set of members with scores and a time to live,
  and beside it a counter (the value at \<open>key .. ':counter'\<close>, here \<open>counters r key\<close>) that
  the script increments for every admitted request. The member \<open>now .. ':' .. n\<close> is the
  pair \<open>(now, n)\<close>. The cache of the hash lookup holds a result
  and the time at which it expires. All times are milliseconds on one clock.
\<close>

record ThreatResult =
  hash :: string
  isThreat :: bool
  threatName :: "string option"
  severity :: "string option"
  category :: "string option"

record zkey =
  entries :: "((int \<times> int) \<times> int) list"
  expiresAt :: "int option"

record redis =
  zsets :: "string \<Rightarrow> zkey"
  counters :: "string \<Rightarrow> int"
  cache :: "string \<Rightarrow> (ThreatResult \<times> int) option"

text \<open>A key whose time to live has run out is gone.\<close>

definition live :: "int \<Rightarrow> zkey \<Rightarrow> ((int \<times> int) \<times> int) list" where
  "live now z =
     (case expiresAt z of
        None \<Rightarrow> entries z
      | Some e \<Rightarrow> if e \<le> now then [] else entries z)"

text \<open>\<open>ZREMRANGEBYSCORE key lo hi\<close> drops the members whose score lies in \<open>[lo, hi]\<close>.\<close>

definition zremrangebyscore :: "int \<Rightarrow> int \<Rightarrow> ((int \<times> int) \<times> int) list \<Rightarrow> ((int \<times> int) \<times> int) list" where
  "zremrangebyscore lo hi es = filter (\<lambda>(m, s). \<not> (lo \<le> s \<and> s \<le> hi)) es"

text \<open>\<open>ZADD key score member\<close> re-scores a member already present and adds a new one.\<close>

fun zadd :: "(int \<times> int) \<Rightarrow> int \<Rightarrow> ((int \<times> int) \<times> int) list \<Rightarrow> ((int \<times> int) \<times> int) list" where
  "zadd m s [] = [(m, s)]"
| "zadd m s (e # es) = (if fst e = m then (m, s) # es else e # zadd m s es)"

text \<open>
  \<open>rateLimitScript\<close>, run atomically by the store: purge the scores up to the start of the
  window, count what is left, refuse at the limit, otherwise add a member scored \<open>now\<close> and
  renew the time to live. An emptied sorted set is a deleted key.
\<close>

definition rateLimitScript :: "redis \<Rightarrow> string \<Rightarrow> int \<Rightarrow> int \<Rightarrow> int \<Rightarrow> (int \<times> int) \<times> redis" where
  "rateLimitScript r key now window limit =
     (let windowStart = now - window * 1000;
          kept = zremrangebyscore 0 windowStart (live now (zsets r key));
          currentCount = int (length kept)
      in if currentCount \<ge> limit
         then ((0, 0),
               r\<lparr> zsets := (zsets r)(key :=
                     \<lparr> entries = kept,
                       expiresAt = (if kept = [] then None else expiresAt (zsets r key)) \<rparr>) \<rparr>)
         else (let n = counters r key + 1
               in ((1, limit - currentCount - 1),
                   r\<lparr> zsets := (zsets r)(key :=
                         \<lparr> entries = zadd (now, n) now kept,
                           expiresAt = Some (now + window * 1000) \<rparr>),
                      counters := (counters r)(key := n) \<rparr>)))"

record rate =
  allowed :: bool
  remaining :: int

text \<open>
  \<open>rateLimit(identifier, limit, window)\<close>: \<open>redis.eval\<close> rejects when the store cannot be
  reached (\<open>eval_throws\<close>), and then nothing is written.
\<close>

definition rateLimit :: "bool \<Rightarrow> int \<Rightarrow> redis \<Rightarrow> string \<Rightarrow> int \<Rightarrow> int \<Rightarrow> (error + rate) \<times> redis" where
  "rateLimit eval_throws now r identifier limit window =
     (if eval_throws then (Inl (Error ''fetch failed''), r)
      else (let (result, r') = rateLimitScript r (''rate_limit:'' @ identifier) now window limit
            in (Inr \<lparr> allowed = (fst result = 1), remaining = snd result \<rparr>, r')))"




section \<open>The environment of a request\<close>

text \<open>
  The Safe Browsing call: \<open>fetch\<close> or \<open>response.json()\<close> may throw; otherwise the
  response has \<open>ok\<close>, a status and, in its data, the threat types of the matches (None
  when the data has no \<open>matches\<close> field).
\<close>

datatype fetch_outcome =
    FetchThrows string
  | FetchResponse (ok: bool) (http_status: nat) (matches: "string list option")

text \<open>
  The answer of Apple's \<open>verifyReceipt\<close> endpoint to a receipt: the call or the parsing of
  its body throws, or the body has a status, perhaps a receipt with its original
  transaction id, and perhaps the list \<open>latest_receipt_info\<close>, whose entries may carry
  \<open>expires_date_ms\<close> (a string).
\<close>

record receipt_entry =
  expires_date_ms :: "string option"

record apple_data =
  apple_status :: int
  original_transaction_id :: "string option"
  latest_receipt_info :: "receipt_entry list option"

datatype apple_outcome = AppleThrows | AppleData apple_data

text \<open>
  A push delivery either resolves with a message id or rejects with the provider's error
  code.
\<close>

record push_message =
  pm_token :: string
  pm_commandId :: string
  pm_commandType :: string
  pm_metadata :: json
  pm_apns :: bool
  pm_sound :: "string option"

text \<open>
  Everything a handler reads that is neither its request nor a store: the JWT library, the
  clock, the ids the relational store generates for new rows, \<open>randomUUID\<close>, whether a call
  to the key-value store fails (and whether the client refuses to run a pipeline with
  nothing queued), the vendors' answers, the answer of the sliding-window
  limiter of the login route (\<open>ratelimit.limit(identifier)\<close>, a library), and
  \<open>bcrypt.compare\<close>.
\<close>

record env =
  verify :: "string \<Rightarrow> AuthUser option"
  now :: int
  gen_id :: "string \<Rightarrow> string"
  randomUUID :: "nat \<Rightarrow> string"
  eval_throws :: bool
  mget_throws :: bool
  exec_throws :: bool
  exec_empty_throws :: bool
  send :: "push_message \<Rightarrow> string + string"
  GOOGLE_SAFE_BROWSING_KEY :: "string option"
  safe_browsing :: fetch_outcome
  login_limit :: "string \<Rightarrow> error + bool"
  bcrypt_compare :: "string \<Rightarrow> string \<Rightarrow> bool"
  jwt_sign :: "string \<Rightarrow> string \<Rightarrow> string"
  APPLE_SHARED_SECRET :: "string option"
  apple_production :: "string \<Rightarrow> apple_outcome"
  apple_sandbox :: "string \<Rightarrow> apple_outcome"

section \<open>app/api/device/command/route.ts\<close>

datatype command_name = locate | ring | lock | wipe

fun COMMAND_TYPE_MAP :: "command_name \<Rightarrow> command_type" where
  "COMMAND_TYPE_MAP locate = LOCATE"
| "COMMAND_TYPE_MAP ring = RING"
| "COMMAND_TYPE_MAP lock = LOCK"
| "COMMAND_TYPE_MAP wipe = WIPE"

fun command_name_str :: "command_name \<Rightarrow> string" where
  "command_name_str locate = ''locate''"
| "command_name_str ring = ''ring''"
| "command_name_str lock = ''lock''"
| "command_name_str wipe = ''wipe''"

text \<open>\<open>DeviceCommandSchema\<close>: a device id, a command name, and optional metadata.\<close>

record command_metadata =
  lockMessage :: "string option"
  phoneNumber :: "string option"

record command_body =
  cb_deviceId :: string
  cb_commandType :: command_name
  cb_metadata :: "command_metadata option"

fun optional_field :: "string \<Rightarrow> string option \<Rightarrow> (string \<times> json) list" where
  "optional_field k None = []"
| "optional_field k (Some v) = [(k, JStr v)]"

text \<open>\<open>validated.metadata || {}\<close>\<close>

fun metadata_json :: "command_metadata option \<Rightarrow> json" where
  "metadata_json None = JObj []"
| "metadata_json (Some m) =
     JObj (optional_field ''lockMessage'' (lockMessage m) @
           optional_field ''phoneNumber'' (phoneNumber m))"

definition command_message :: "AntiTheftCommand \<Rightarrow> command_body \<Rightarrow> PushToken \<Rightarrow> push_message" where
  "command_message command validated pushToken =
     \<lparr> pm_token = pt_token pushToken,
       pm_commandId = ac_id command,
       pm_commandType = command_name_str (cb_commandType validated),
       pm_metadata = metadata_json (cb_metadata validated),
       pm_apns = (pt_platform pushToken = ''apns''),
       pm_sound = (if pt_platform pushToken = ''apns'' \<and> cb_commandType validated = ring
                   then Some ''default'' else None) \<rparr>"

definition invalid_token_code :: "string \<Rightarrow> bool" where
  "invalid_token_code code \<longleftrightarrow>
     code = ''messaging/invalid-registration-token'' \<or>
     code = ''messaging/registration-token-not-registered''"

text \<open>
  One delivery: fulfilled when the provider accepts the message. When it rejects with one
  of the two invalid-token codes the token is deactivated first; the promise is rejected
  either way.
\<close>

definition push_one :: "env \<Rightarrow> AntiTheftCommand \<Rightarrow> command_body \<Rightarrow> PushToken \<Rightarrow> store \<Rightarrow> bool \<times> store" where
  "push_one env command validated pushToken s =
     (case send env (command_message command validated pushToken) of
        Inr messageId \<Rightarrow> (True, s)
      | Inl code \<Rightarrow>
          if invalid_token_code code
          then (case update_unique (\<lambda>t. pt_id t = pt_id pushToken)
                        (\<lambda>t. t\<lparr> pt_isActive := False \<rparr>) (pushTokens s) of
                  Inl e \<Rightarrow> (False, s)
                | Inr ts \<Rightarrow> (False, s\<lparr> pushTokens := ts \<rparr>))
          else (False, s))"

text \<open>Whether the provider accepts the message for a token.\<close>

definition delivered :: "env \<Rightarrow> AntiTheftCommand \<Rightarrow> command_body \<Rightarrow> PushToken \<Rightarrow> bool" where
  "delivered env command validated t =
     (case send env (command_message command validated t) of
        Inr messageId \<Rightarrow> True
      | Inl code \<Rightarrow> False)"

text \<open>
  \<open>Promise.allSettled\<close> over the tokens: one outcome per token, in the order of the tokens.
  The deliveries write to different rows, so running them one after the other loses nothing.
\<close>

fun push_all :: "env \<Rightarrow> AntiTheftCommand \<Rightarrow> command_body \<Rightarrow> PushToken list \<Rightarrow> store \<Rightarrow> bool list \<times> store" where
  "push_all env command validated [] s = ([], s)"
| "push_all env command validated (t # ts) s =
     (let (fulfilled, s') = push_one env command validated t s;
          (rest, s'') = push_all env command validated ts s'
      in (fulfilled # rest, s''))"

text \<open>
  From the creation of the command row to the response: create it as PENDING, fan out,
  record SENT or FAILED, log the telemetry.
\<close>

definition new_command :: "env \<Rightarrow> AuthUser \<Rightarrow> command_body \<Rightarrow> Device \<Rightarrow> AntiTheftCommand" where
  "new_command env user validated device =
     \<lparr> ac_id = gen_id env ''AntiTheftCommand'',
       ac_deviceId = d_id device,
       ac_commandType = COMMAND_TYPE_MAP (cb_commandType validated),
       ac_status = PENDING,
       ac_issuedBy = userId user,
       ac_executedAt = None,
       ac_metadata = metadata_json (cb_metadata validated) \<rparr>"

definition dispatch :: "env \<Rightarrow> AuthUser \<Rightarrow> command_body \<Rightarrow> Device \<Rightarrow> PushToken list \<Rightarrow> store \<Rightarrow> (error + response) \<times> store" where
  "dispatch env user validated device tokens s =
     (let command = new_command env user validated device
      in case create_keyed ac_id command (antiTheftCommands s) of
           Inl e \<Rightarrow> (Inl e, s)
         | Inr created \<Rightarrow>
             (let (pushResults, s2) =
                    push_all env command validated tokens (s\<lparr> antiTheftCommands := created \<rparr>);
                  successfulPushes = length (filter (\<lambda>fulfilled. fulfilled) pushResults)
              in case update_unique (\<lambda>c. ac_id c = ac_id command)
                        (\<lambda>c. c\<lparr> ac_status := (if successfulPushes > 0 then SENT else FAILED) \<rparr>)
                        (antiTheftCommands s2) of
                   Inl e \<Rightarrow> (Inl e, s2)
                 | Inr updated \<Rightarrow>
                     (Inr (success (JObj
                        [(''commandId'', JStr (ac_id command)),
                         (''status'', JStr (if successfulPushes > 0 then ''sent'' else ''failed'')),
                         (''pushesSent'', JNum (real successfulPushes))])),
                      s2\<lparr> antiTheftCommands := updated,
                          telemetryLogs := telemetryLogs s2 @
                            [\<lparr> tl_userId = userId user,
                               tl_eventType = ''anti_theft_command_issued'',
                               tl_eventData = JObj
                                 [(''commandType'', JStr (command_name_str (cb_commandType validated))),
                                  (''deviceId'', JStr (d_id device)),
                                  (''success'', JBool (successfulPushes > 0))] \<rparr>] \<rparr>)))"

text \<open>The device of the request, owned by the caller and active.\<close>

definition owned_active_device :: "store \<Rightarrow> string \<Rightarrow> string \<Rightarrow> Device option" where
  "owned_active_device s deviceId uid =
     find (\<lambda>d. d_id d = deviceId \<and> d_userId d = uid \<and> d_isActive d) (devices s)"

definition active_tokens :: "store \<Rightarrow> Device \<Rightarrow> PushToken list" where
  "active_tokens s device =
     filter (\<lambda>t. pt_deviceId t = d_id device \<and> pt_isActive t) (pushTokens s)"

definition command_try :: "env \<Rightarrow> command_body request \<Rightarrow> store \<Rightarrow> redis \<Rightarrow> (error + response) \<times> store \<times> redis" where
  "command_try env req s r =
     (case verifyAuth (verify env) req of
        Inl e \<Rightarrow> (Inl e, s, r)
      | Inr user \<Rightarrow>
          (case rateLimit (eval_throws env) (now env) r (''device_command:'' @ userId user) 10 3600 of
             (Inl e, r') \<Rightarrow> (Inl e, s, r')
           | (Inr limited, r') \<Rightarrow>
               if \<not> allowed limited
               then (Inr (failure 429 ''Too many commands. Please try again later.''), s, r')
               else (case parse_body (payload req) of
                       Inl e \<Rightarrow> (Inl e, s, r')
                     | Inr validated \<Rightarrow>
                         (case owned_active_device s (cb_deviceId validated) (userId user) of
                            None \<Rightarrow> (Inr (failure 404 ''Device not found or inactive''), s, r')
                          | Some device \<Rightarrow>
                              if active_tokens s device = []
                              then (Inr (failure 400 ''Device has no active push tokens''), s, r')
                              else (let (res, s') =
                                          dispatch env user validated device (active_tokens s device) s
                                    in (res, s', r'))))))"

definition POST_command :: "env \<Rightarrow> command_body request \<Rightarrow> store \<Rightarrow> redis \<Rightarrow> response \<times> store \<times> redis" where
  "POST_command env req s r =
     (case command_try env req s r of
        (Inr res, s', r') \<Rightarrow> (res, s', r')
      | (Inl e, s', r') \<Rightarrow>
          (if isZodError e then failure 400 ''Invalid request data''
           else if includes_str (message e) ''Unauthorized'' then failure 401 ''Unauthorized''
           else failure 500 ''Failed to send command'',
           s', r'))"

section \<open>app/api/device/location/route.ts\<close>

text \<open>
  \<open>LocationSchema\<close>: the ranges of the three numbers are checked here; the shape of the
  body and the date-time format of the timestamp are part of \<open>Validated\<close>.
\<close>

record location_body =
  lb_deviceId :: string
  lb_commandId :: string
  latitude :: real
  longitude :: real
  accuracy :: real
  timestamp :: string

definition LocationSchema :: "location_body parsed_body \<Rightarrow> error + location_body" where
  "LocationSchema p =
     (case parse_body p of
        Inl e \<Rightarrow> Inl e
      | Inr v \<Rightarrow>
          if - 90 \<le> latitude v \<and> latitude v \<le> 90 \<and> - 180 \<le> longitude v \<and> longitude v \<le> 180
             \<and> 0 < accuracy v
          then Inr v
          else Inl (ZodError ''Number out of range''))"

text \<open>
  \<open>{ ...(command.metadata || {}), location: {...} }\<close>: the fields of the stored object,
  with \<open>location\<close> replaced where it stands or added at the end. The handlers only ever
  store an object (or nothing) in this column.
\<close>

fun spread :: "json \<Rightarrow> (string \<times> json) list" where
  "spread (JObj members) = members"
| "spread other = []"

fun put_field :: "string \<Rightarrow> json \<Rightarrow> (string \<times> json) list \<Rightarrow> (string \<times> json) list" where
  "put_field k v [] = [(k, v)]"
| "put_field k v (f # fs) = (if fst f = k then (k, v) # fs else f # put_field k v fs)"

definition location_json :: "location_body \<Rightarrow> json" where
  "location_json v =
     JObj [(''latitude'', JNum (latitude v)), (''longitude'', JNum (longitude v)),
           (''accuracy'', JNum (accuracy v)), (''timestamp'', JStr (timestamp v))]"

text \<open>The \<open>data\<close> of the update: status, execution time and the merged metadata.\<close>

definition executed :: "env \<Rightarrow> location_body \<Rightarrow> AntiTheftCommand \<Rightarrow> AntiTheftCommand" where
  "executed env v c =
     c\<lparr> ac_status := EXECUTED,
        ac_executedAt := Some (now env),
        ac_metadata := JObj (put_field ''location'' (location_json v) (spread (ac_metadata c))) \<rparr>"

definition location_try :: "env \<Rightarrow> location_body request \<Rightarrow> store \<Rightarrow> (error + response) \<times> store" where
  "location_try env req s =
     (case verifyAuth (verify env) req of
        Inl e \<Rightarrow> (Inl e, s)
      | Inr user \<Rightarrow>
          (case LocationSchema (payload req) of
             Inl e \<Rightarrow> (Inl e, s)
           | Inr validated \<Rightarrow>
               (case find (\<lambda>d. d_id d = lb_deviceId validated \<and> d_userId d = userId user) (devices s) of
                  None \<Rightarrow> (Inr (failure 404 ''Device not found''), s)
                | Some device \<Rightarrow>
                    (case find (\<lambda>c. ac_id c = lb_commandId validated \<and> ac_deviceId c = d_id device \<and>
                                     ac_commandType c = LOCATE) (antiTheftCommands s) of
                       None \<Rightarrow> (Inr (failure 404 ''Command not found''), s)
                     | Some command \<Rightarrow>
                         (case update_unique (\<lambda>c. ac_id c = ac_id command) (executed env validated)
                                 (antiTheftCommands s) of
                            Inl e \<Rightarrow> (Inl e, s)
                          | Inr updated \<Rightarrow>
                              (Inr (success (JObj [(''commandId'', JStr (ac_id command)),
                                                   (''status'', JStr ''EXECUTED'')])),
                               s\<lparr> antiTheftCommands := updated \<rparr>))))))"

definition POST_location :: "env \<Rightarrow> location_body request \<Rightarrow> store \<Rightarrow> response \<times> store" where
  "POST_location env req s =
     (case location_try env req s of
        (Inr res, s') \<Rightarrow> (res, s')
      | (Inl e, s') \<Rightarrow>
          (if isZodError e then failure 400 ''Invalid request data''
           else failure 500 ''Location update failed'',
           s'))"

section \<open>app/api/auth/email-login/route.ts\<close>

record device_info =
  di_deviceId :: string
  di_deviceName :: string
  di_platform :: mobile_platform
  di_osVersion :: string
  di_appVersion :: string

record login_body =
  lg_email :: string
  lg_password :: string
  lg_deviceInfo :: device_info

text \<open>\<open>EmailLoginSchema\<close>: the password must not be empty.\<close>

definition EmailLoginSchema :: "login_body parsed_body \<Rightarrow> error + login_body" where
  "EmailLoginSchema p =
     (case parse_body p of
        Inl e \<Rightarrow> Inl e
      | Inr v \<Rightarrow> if lg_password v = [] then Inl (ZodError ''Password required'') else Inr v)"

text \<open>
  The identifier of the limiter: the first of three proxy headers that is present and not
  empty, else \<open>anonymous\<close>; of it the part before the first comma, trimmed.
\<close>

definition whitespace :: "char \<Rightarrow> bool" where
  "whitespace c \<longleftrightarrow> c \<in> set [CHR '' '', CHR 0x09, CHR 0x0A, CHR 0x0B, CHR 0x0C, CHR 0x0D]"

definition trim :: "string \<Rightarrow> string" where
  "trim str = rev (dropWhile whitespace (rev (dropWhile whitespace str)))"

fun first_present :: "string option list \<Rightarrow> string \<Rightarrow> string" where
  "first_present [] fallback = fallback"
| "first_present (None # hs) fallback = first_present hs fallback"
| "first_present (Some v # hs) fallback = (if v = [] then first_present hs fallback else v)"

definition client_identifier :: "'a request \<Rightarrow> string" where
  "client_identifier req =
     trim (takeWhile (\<lambda>c. c \<noteq> CHR '','')
       (first_present [headers req ''x-forwarded-for'', headers req ''x-real-ip'',
                       headers req ''x-client-ip''] ''anonymous''))"

definition week :: int where
  "week = 7 * 24 * 60 * 60 * 1000"

fun optional_json :: "('a \<Rightarrow> json) \<Rightarrow> 'a option \<Rightarrow> json" where
  "optional_json f None = JNull"
| "optional_json f (Some v) = f v"

text \<open>
  \<open>device.upsert\<close> of the login: an existing row gets the time and the versions; a new
  row is the user's. The \<open>create\<close> argument carries
  \<open>platform: validated.deviceInfo.platform as 'IOS' | 'ANDROID'\<close>; the cast changes
  nothing at run time, so the value is the lower-case string of the request, and the
  client refuses the query whether or not the row exists.
\<close>

definition login_device :: "env \<Rightarrow> login_body \<Rightarrow> User \<Rightarrow> Device list \<Rightarrow> error + (Device \<times> Device list)" where
  "login_device env validated user rows =
     (let info = lg_deviceInfo validated
      in case Platform_of (platform_str (di_platform info)) of
           None \<Rightarrow> Inl (Error ''Invalid value for argument `platform`. Expected Platform.'')
         | Some platform \<Rightarrow>
             upsert d_id (\<lambda>d. d_deviceId d = di_deviceId info)
               (\<lambda>d. d\<lparr> d_lastSeen := now env, d_osVersion := di_osVersion info,
                       d_appVersion := di_appVersion info \<rparr>)
               \<lparr> d_id = gen_id env ''Device'', d_userId = u_id user,
                 d_deviceId = di_deviceId info, d_deviceName = di_deviceName info,
                 d_platform = platform, d_osVersion = di_osVersion info,
                 d_appVersion = di_appVersion info, d_lastSeen = now env,
                 d_isActive = True \<rparr>
               rows)"

text \<open>
  After the password has matched: touch the user, upsert the device, find or create the
  subscription, sign the token, log the telemetry.
\<close>

definition login_session :: "env \<Rightarrow> login_body \<Rightarrow> User \<Rightarrow> store \<Rightarrow> (error + response) \<times> store" where
  "login_session env validated user s =
     (case update_unique (\<lambda>u. u_id u = u_id user) (\<lambda>u. u\<lparr> u_updatedAt := now env \<rparr>) (users s) of
        Inl e \<Rightarrow> (Inl e, s)
      | Inr touched \<Rightarrow>
          (let s1 = s\<lparr> users := touched \<rparr>;
               info = lg_deviceInfo validated
           in case login_device env validated user (devices s1) of
                Inl e \<Rightarrow> (Inl e, s1)
              | Inr (device, devs) \<Rightarrow>
                  (let s2 = s1\<lparr> devices := devs \<rparr>;
                       trial = \<lparr> sub_id = gen_id env ''Subscription'', sub_userId = u_id user,
                                 sub_tier = ''free'', sub_status = ''trial'',
                                 sub_platform = platform_str (di_platform info),
                                 sub_trialEndsAt = Some (now env + week),
                                 sub_currentPeriodStart = Some (now env),
                                 sub_currentPeriodEnd = Some (now env + week) \<rparr>
                   in case (case find (\<lambda>b. sub_userId b = u_id user \<and>
                                              (sub_status b = ''active'' \<or> sub_status b = ''trial''))
                                   (subscriptions s2) of
                              Some existing \<Rightarrow> Inr (existing, subscriptions s2)
                            | None \<Rightarrow>
                                (case create_keyed sub_id trial (subscriptions s2) of
                                   Inl e \<Rightarrow> Inl e
                                 | Inr subs \<Rightarrow> Inr (trial, subs))) of
                        Inl e \<Rightarrow> (Inl e, s2)
                      | Inr (subscription, subs) \<Rightarrow>
                          (Inr (success (JObj
                             [(''token'', JStr (jwt_sign env (u_id user) (u_email user))),
                              (''user'', JObj [(''id'', JStr (u_id user)),
                                               (''email'', JStr (u_email user)),
                                               (''name'', optional_json JStr (u_name user))]),
                              (''device'', JObj [(''id'', JStr (d_id device))]),
                              (''subscription'', JObj
                                 [(''tier'', JStr (sub_tier subscription)),
                                  (''status'', JStr (sub_status subscription)),
                                  (''trialEndsAt'',
                                   optional_json (\<lambda>t. JNum (real_of_int t))
                                     (sub_trialEndsAt subscription))])])),
                           s2\<lparr> subscriptions := subs,
                               telemetryLogs := telemetryLogs s2 @
                                 [\<lparr> tl_userId = u_id user, tl_eventType = ''email_login'',
                                    tl_eventData = JObj
                                      [(''deviceId'', JStr (d_id device)),
                                       (''platform'', JStr (platform_str (di_platform info))),
                                       (''timestamp'', JNum (real_of_int (now env)))] \<rparr>] \<rparr>))))"

text \<open>
  The \<open>try\<close> block: the three ways of failing authentication return the same literal
  response.
\<close>

definition login_try :: "env \<Rightarrow> login_body request \<Rightarrow> store \<Rightarrow> (error + response) \<times> store" where
  "login_try env req s =
     (case EmailLoginSchema (payload req) of
        Inl e \<Rightarrow> (Inl e, s)
      | Inr validated \<Rightarrow>
          (case find (\<lambda>u. u_email u = lg_email validated) (users s) of
             None \<Rightarrow> (Inr (failure 401 ''Invalid email or password''), s)
           | Some user \<Rightarrow>
               (case u_passwordHash user of
                  None \<Rightarrow> (Inr (failure 401 ''Invalid email or password''), s)
                | Some passwordHash \<Rightarrow>
                    if passwordHash = []
                    then (Inr (failure 401 ''Invalid email or password''), s)
                    else if \<not> bcrypt_compare env (lg_password validated) passwordHash
                    then (Inr (failure 401 ''Invalid email or password''), s)
                    else login_session env validated user s)))"

text \<open>
  The handler. The limiter is consulted before the \<open>try\<close>, so its exception is the
  handler's own (the \<open>Inl\<close> of the result).
\<close>

definition POST_login :: "env \<Rightarrow> login_body request \<Rightarrow> store \<Rightarrow> (error + response) \<times> store" where
  "POST_login env req s =
     (case login_limit env (client_identifier req) of
        Inl e \<Rightarrow> (Inl e, s)
      | Inr admitted \<Rightarrow>
          if \<not> admitted then (Inr (failure 429 ''Too many login attempts''), s)
          else (case login_try env req s of
                  (Inr res, s') \<Rightarrow> (Inr res, s')
                | (Inl e, s') \<Rightarrow>
                    (Inr (if isZodError e
                          then respond 400 (JObj [(''success'', JBool False),
                                                  (''error'', JStr ''Invalid request data''),
                                                  (''details'', JStr (message e))])
                          else failure 500 ''Login failed''),
                     s')))"

section \<open>app/api/scan/hash-check/route.ts\<close>

text \<open>\<open>HashCheckSchema\<close>: one to a hundred hashes of 64 characters, and a device id.\<close>

record hash_body =
  hashes :: "string list"
  hb_deviceId :: string

definition HashCheckSchema :: "hash_body parsed_body \<Rightarrow> error + hash_body" where
  "HashCheckSchema p =
     (case parse_body p of
        Inl e \<Rightarrow> Inl e
      | Inr v \<Rightarrow>
          if list_all (\<lambda>h. length h = 64) (hashes v) \<and> 1 \<le> length (hashes v) \<and>
             length (hashes v) \<le> 100
          then Inr v
          else Inl (ZodError ''Invalid hashes''))"

text \<open>
  \<open>redis.mget(...cacheKeys)\<close>: for each key the value it holds, if its time to live has not
  run out. \<open>setex(key, 3600, value)\<close> stores a value for an hour.
\<close>

definition cached :: "redis \<Rightarrow> int \<Rightarrow> string \<Rightarrow> ThreatResult option" where
  "cached r t key =
     (case cache r key of
        None \<Rightarrow> None
      | Some (v, expiry) \<Rightarrow> if t < expiry then Some v else None)"

definition mget :: "redis \<Rightarrow> int \<Rightarrow> string list \<Rightarrow> ThreatResult option list" where
  "mget r t keys = map (cached r t) keys"

definition setex :: "int \<Rightarrow> string \<Rightarrow> int \<Rightarrow> ThreatResult \<Rightarrow> redis \<Rightarrow> redis" where
  "setex t key seconds v r = r\<lparr> cache := (cache r)(key := Some (v, t + seconds * 1000)) \<rparr>"

text \<open>
  The \<open>forEach\<close> over the batch: a hash whose cached entry is there contributes that entry
  to the results; every other hash is left to the store.
\<close>

fun split_cached :: "string list \<Rightarrow> ThreatResult option list \<Rightarrow> ThreatResult list \<times> string list" where
  "split_cached [] cachedResults = ([], [])"
| "split_cached (h # hs) [] = (fst (split_cached hs []), h # snd (split_cached hs []))"
| "split_cached (h # hs) (None # cs) = (fst (split_cached hs cs), h # snd (split_cached hs cs))"
| "split_cached (h # hs) (Some c # cs) = (c # fst (split_cached hs cs), snd (split_cached hs cs))"

text \<open>
  The cache phase. When \<open>mget\<close> throws, the inner \<open>catch\<close> sends the whole batch to the
  store.
\<close>

definition check_cache :: "env \<Rightarrow> redis \<Rightarrow> string list \<Rightarrow> ThreatResult list \<times> string list" where
  "check_cache env r hs =
     (if mget_throws env then ([], hs)
      else split_cached hs (mget r (now env) (map (\<lambda>h. ''threat:'' @ h) hs)))"

text \<open>
  \<open>threatSignature.findMany\<close> for the uncached hashes, and the \<open>Map\<close> built from its rows (a
  later row with the same signature replaces an earlier one).
\<close>

definition active_hash_signatures :: "store \<Rightarrow> string list \<Rightarrow> ThreatSignature list" where
  "active_hash_signatures s uncachedHashes =
     filter (\<lambda>t. ts_signature t \<in> set uncachedHashes \<and> ts_type t = HASH \<and> ts_isActive t)
       (threatSignatures s)"

definition threatMap :: "ThreatSignature list \<Rightarrow> string \<Rightarrow> ThreatSignature option" where
  "threatMap threats = map_of (rev (map (\<lambda>t. (ts_signature t, t)) threats))"

definition resolve :: "ThreatSignature list \<Rightarrow> string \<Rightarrow> ThreatResult" where
  "resolve threats h =
     (case threatMap threats h of
        Some threat \<Rightarrow>
          \<lparr> hash = h, isThreat = True, threatName = Some (ts_threatName threat),
            severity = Some (ts_severity threat), category = Some (ts_category threat) \<rparr>
      | None \<Rightarrow>
          \<lparr> hash = h, isThreat = False, threatName = None, severity = None, category = None \<rparr>)"

text \<open>The \<open>for\<close> loop queues one \<open>setex\<close> per uncached hash; \<open>exec\<close> runs them in order.\<close>

fun write_back :: "int \<Rightarrow> ThreatResult list \<Rightarrow> redis \<Rightarrow> redis" where
  "write_back t [] r = r"
| "write_back t (res # rest) r = write_back t rest (setex t (''threat:'' @ hash res) 3600 res r)"

definition result_json :: "ThreatResult \<Rightarrow> json" where
  "result_json res =
     JObj ([(''hash'', JStr (hash res)), (''isThreat'', JBool (isThreat res))] @
           optional_field ''threatName'' (threatName res) @
           optional_field ''severity'' (severity res) @
           optional_field ''category'' (category res))"


text \<open>
  \<open>await pipeline.exec()\<close> runs the queued \<open>setex\<close> commands in order, or rejects.
\<close>

definition pipeline_exec :: "env \<Rightarrow> ThreatResult list \<Rightarrow> redis \<Rightarrow> error + redis" where
  "pipeline_exec env queued r =
     (if exec_throws env \<or> (queued = [] \<and> exec_empty_throws env) then Inl (Error ''fetch failed'')
      else Inr (write_back (now env) queued r))"

text \<open>The telemetry row of l.134-144 and the response of l.147-154.\<close>

definition threats_detected :: "env \<Rightarrow> AuthUser \<Rightarrow> Device \<Rightarrow> nat \<Rightarrow> TelemetryLog" where
  "threats_detected env user device threatsFound =
     \<lparr> tl_userId = userId user, tl_eventType = ''threats_detected'',
       tl_eventData = JObj
         [(''deviceId'', JStr (d_id device)),
          (''count'', JNum (real threatsFound)),
          (''timestamp'', JNum (real_of_int (now env)))] \<rparr>"

definition create_telemetry :: "TelemetryLog \<Rightarrow> store \<Rightarrow> store" where
  "create_telemetry row s = s\<lparr> telemetryLogs := telemetryLogs s @ [row] \<rparr>"

definition hash_answer :: "hash_body \<Rightarrow> ThreatResult list \<Rightarrow> response" where
  "hash_answer validated results =
     success (JObj
       [(''results'', JArr (map result_json results)),
        (''scanned'', JNum (real (length (hashes validated)))),
        (''threatsFound'', JNum (real (length (filter isThreat results))))])"

text \<open>
  From the cache lookup to the response. The file as it stands lacks one closing brace:
  the \<open>}\<close> in front of \<open>catch\<close> (l.155) closes \<open>if (uncachedHashes.length > 0)\<close> of l.81, and
  the \<open>try\<close> of the handler is never closed. The brace can go after any statement between
  l.81 and l.155. Where it goes decides which block ends where, and so which of the
  block-scoped names \<open>threats\<close>, \<open>threatMap\<close>, \<open>pipeline\<close>, \<open>threat\<close>, \<open>result\<close>, \<open>hash\<close> and
  \<open>threatsFound\<close> a later statement can still read; reading a name whose block has ended
  throws a \<open>ReferenceError\<close>. The model takes the place as a parameter:

    \<^item> \<open>AfterIfHead\<close>: after l.81 or after the type declaration (l.87). The \<open>if\<close> guards
      nothing, and l.89-154 run for every batch.
    \<^item> \<open>AfterFindMany\<close>: after l.101. \<open>threats\<close> is out of scope at l.104.
    \<^item> \<open>AfterThreatMap\<close>: after l.105. \<open>threatMap\<close> is out of scope in the loop body.
    \<^item> \<open>AfterPipeline\<close>: after l.106. \<open>threatMap\<close> is out of scope in the loop body and
      \<open>pipeline\<close> at l.128.
    \<^item> \<open>InLoop\<close>: after l.107, l.108, l.120 or l.122. The added brace ends the loop body and
      the \<open>}\<close> of l.126 ends the \<open>if\<close>; the rest of the loop body runs once after the loop,
      where \<open>hash\<close>, \<open>threat\<close> or \<open>result\<close> is out of scope, and \<open>pipeline\<close> is out of scope
      at l.128.
    \<^item> \<open>AfterLoop\<close>: after l.125 or l.126. The \<open>if\<close> ends with the loop, and \<open>pipeline\<close> is
      out of scope at l.128.
    \<^item> \<open>AfterExec\<close>: after l.128.
    \<^item> \<open>AfterCount\<close>: after l.131. \<open>threatsFound\<close> is out of scope at l.133.
    \<^item> \<open>InTelemetry\<close>: after l.133. \<open>if (threatsFound > 0)\<close> guards nothing, the telemetry
      row is created whenever the outer \<open>if\<close> is entered, and \<open>threatsFound\<close> is out of scope
      at l.152.
    \<^item> \<open>AfterTelemetry\<close>: after l.144 or l.145. \<open>threatsFound\<close> is out of scope at l.152.
    \<^item> \<open>AfterReturn\<close>: after l.154. With nothing uncached the \<open>try\<close> block ends without a
      \<open>return\<close>, and the handler gives no response.

  In no place is \<open>await pipeline.exec()\<close> inside an inner \<open>try\<close>: when it rejects, the
  handler's outer \<open>catch\<close> takes over.
\<close>

datatype placement =
    AfterIfHead
  | AfterFindMany
  | AfterThreatMap
  | AfterPipeline
  | InLoop
  | AfterLoop
  | AfterExec
  | AfterCount
  | InTelemetry
  | AfterTelemetry
  | AfterReturn

definition ReferenceError :: "string \<Rightarrow> error" where
  "ReferenceError name = Error (name @ '' is not defined'')"

text \<open>l.131-154 with every name in scope: the count, the telemetry row, the response.\<close>

definition report :: "env \<Rightarrow> AuthUser \<Rightarrow> hash_body \<Rightarrow> Device \<Rightarrow> ThreatResult list \<Rightarrow> store \<Rightarrow> redis \<Rightarrow> (error + response option) \<times> store \<times> redis" where
  "report env user validated device results s r =
     (let threatsFound = length (filter isThreat results)
      in (Inr (Some (hash_answer validated results)),
          if threatsFound > 0 then create_telemetry (threats_detected env user device threatsFound) s
          else s,
          r))"

text \<open>l.128-154 with every name in scope.\<close>

definition exec_and_report :: "env \<Rightarrow> AuthUser \<Rightarrow> hash_body \<Rightarrow> Device \<Rightarrow> ThreatResult list \<Rightarrow> ThreatResult list \<Rightarrow> store \<Rightarrow> redis \<Rightarrow> (error + response option) \<times> store \<times> redis" where
  "exec_and_report env user validated device results queued s r =
     (case pipeline_exec env queued r of
        Inl e \<Rightarrow> (Inl e, s, r)
      | Inr r' \<Rightarrow> report env user validated device results s r')"

text \<open>
  l.128 and what the block still does after it (\<open>logged\<close>), up to the first statement
  outside the block that reads \<open>threatsFound\<close>.
\<close>

definition exec_and_lose_count :: "env \<Rightarrow> ThreatResult list \<Rightarrow> (store \<Rightarrow> store) \<Rightarrow> store \<Rightarrow> redis \<Rightarrow> (error + response option) \<times> store \<times> redis" where
  "exec_and_lose_count env queued logged s r =
     (case pipeline_exec env queued r of
        Inl e \<Rightarrow> (Inl e, s, r)
      | Inr r' \<Rightarrow> (Inl (ReferenceError ''threatsFound''), logged s, r'))"

definition lookup :: "placement \<Rightarrow> env \<Rightarrow> AuthUser \<Rightarrow> hash_body \<Rightarrow> Device \<Rightarrow> store \<Rightarrow> redis \<Rightarrow> (error + response option) \<times> store \<times> redis" where
  "lookup p env user validated device s r =
     (let (cachedResults, uncachedHashes) = check_cache env r (hashes validated);
          resolved = map (resolve (active_hash_signatures s uncachedHashes)) uncachedHashes;
          results = cachedResults @ resolved;
          threatsFound = length (filter isThreat results);
          row = threats_detected env user device threatsFound
      in case p of
           AfterIfHead \<Rightarrow> exec_and_report env user validated device results resolved s r
         | AfterFindMany \<Rightarrow> (Inl (ReferenceError ''threats''), s, r)
         | AfterThreatMap \<Rightarrow>
             if uncachedHashes \<noteq> [] then (Inl (ReferenceError ''threatMap''), s, r)
             else exec_and_report env user validated device results resolved s r
         | AfterPipeline \<Rightarrow>
             if uncachedHashes \<noteq> [] then (Inl (ReferenceError ''threatMap''), s, r)
             else (Inl (ReferenceError ''pipeline''), s, r)
         | InLoop \<Rightarrow>
             if uncachedHashes \<noteq> [] then (Inl (ReferenceError ''hash''), s, r)
             else (Inl (ReferenceError ''pipeline''), s, r)
         | AfterLoop \<Rightarrow> (Inl (ReferenceError ''pipeline''), s, r)
         | AfterExec \<Rightarrow>
             if uncachedHashes \<noteq> []
             then exec_and_report env user validated device results resolved s r
             else report env user validated device results s r
         | AfterCount \<Rightarrow>
             if uncachedHashes \<noteq> [] then exec_and_lose_count env resolved id s r
             else (Inl (ReferenceError ''threatsFound''), s, r)
         | InTelemetry \<Rightarrow>
             if uncachedHashes \<noteq> []
             then exec_and_lose_count env resolved (create_telemetry row) s r
             else (Inl (ReferenceError ''threatsFound''), s, r)
         | AfterTelemetry \<Rightarrow>
             if uncachedHashes \<noteq> []
             then exec_and_lose_count env resolved
                    (if threatsFound > 0 then create_telemetry row else id) s r
             else (Inl (ReferenceError ''threatsFound''), s, r)
         | AfterReturn \<Rightarrow>
             if uncachedHashes \<noteq> []
             then exec_and_report env user validated device results resolved s r
             else (Inr None, s, r))"

definition hash_check_try :: "placement \<Rightarrow> env \<Rightarrow> hash_body request \<Rightarrow> store \<Rightarrow> redis \<Rightarrow> (error + response option) \<times> store \<times> redis" where
  "hash_check_try p env req s r =
     (case verifyAuth (verify env) req of
        Inl e \<Rightarrow> (Inl e, s, r)
      | Inr user \<Rightarrow>
          (case rateLimit (eval_throws env) (now env) r (''hash_check:'' @ userId user) 50 60 of
             (Inl e, r') \<Rightarrow> (Inl e, s, r')
           | (Inr limited, r') \<Rightarrow>
               if \<not> allowed limited then (Inr (Some (failure 429 ''Too many requests'')), s, r')
               else (case HashCheckSchema (payload req) of
                       Inl e \<Rightarrow> (Inl e, s, r')
                     | Inr validated \<Rightarrow>
                         (case find (\<lambda>d. d_id d = hb_deviceId validated \<and> d_userId d = userId user)
                                 (devices s) of
                            None \<Rightarrow> (Inr (Some (failure 404 ''Device not found'')), s, r')
                          | Some device \<Rightarrow> lookup p env user validated device s r'))))"

text \<open>The handler's outer \<open>catch\<close>. The result \<open>None\<close> is a handler that returns nothing.\<close>

definition POST_hash_check :: "placement \<Rightarrow> env \<Rightarrow> hash_body request \<Rightarrow> store \<Rightarrow> redis \<Rightarrow> response option \<times> store \<times> redis" where
  "POST_hash_check p env req s r =
     (case hash_check_try p env req s r of
        (Inr res, s', r') \<Rightarrow> (res, s', r')
      | (Inl e, s', r') \<Rightarrow>
          (Some (if isZodError e then failure 400 ''Invalid request data''
                 else failure 500 ''Hash check failed''),
           s', r'))"

section \<open>app/api/payment/verify/route.ts: verifyAppleReceipt\<close>

text \<open>
  \<open>parseInt(s, 10)\<close>: leading white space, an optional sign, then the longest run of
  decimal digits; \<open>NaN\<close> when there is no digit. The value is kept exact (a double is,
  below \<open>2^53\<close>).
\<close>

datatype number = NaN | Num int

definition digit :: "char \<Rightarrow> bool" where
  "digit c \<longleftrightarrow> c \<in> set ''0123456789''"

text \<open>The value of a digit is its place in \<open>0123456789\<close>.\<close>

definition digit_value :: "char \<Rightarrow> int" where
  "digit_value c = int (length (takeWhile (\<lambda>d. d \<noteq> c) ''0123456789''))"

definition digits_value :: "string \<Rightarrow> int" where
  "digits_value ds = foldl (\<lambda>acc c. 10 * acc + digit_value c) 0 ds"

definition parseInt :: "string \<Rightarrow> number" where
  "parseInt str =
     (let t = dropWhile whitespace str;
          negative = (t \<noteq> [] \<and> hd t = CHR ''-'');
          unsigned = (if t \<noteq> [] \<and> (hd t = CHR ''-'' \<or> hd t = CHR ''+'') then tl t else t);
          ds = takeWhile digit unsigned
      in if ds = [] then NaN
         else Num (if negative then - digits_value ds else digits_value ds))"

text \<open>\<open>a > b\<close> on numbers: false as soon as one side is \<open>NaN\<close>.\<close>

fun greater :: "number \<Rightarrow> number \<Rightarrow> bool" where
  "greater (Num a) (Num b) = (a > b)"
| "greater a b = False"

text \<open>\<open>parseInt(entry.expires_date_ms || '0', 10)\<close>\<close>

definition expiry :: "receipt_entry \<Rightarrow> number" where
  "expiry entry =
     parseInt (case expires_date_ms entry of
                 None \<Rightarrow> ''0''
               | Some ms \<Rightarrow> if ms = [] then ''0'' else ms)"

text \<open>
  \<open>latest_receipt_info?.reduce((latest, current) => ...)\<close> without an initial value: the
  first entry starts as the latest; on an empty array \<open>reduce\<close> throws a TypeError.
\<close>

definition latest_of :: "receipt_entry list \<Rightarrow> error + receipt_entry" where
  "latest_of infos =
     (case infos of
        [] \<Rightarrow> Inl (Error ''Reduce of empty array with no initial value'')
      | first # rest \<Rightarrow>
          Inr (foldl (\<lambda>latest current. if greater (expiry current) (expiry latest) then current else latest)
                 first rest))"

record VerificationResult =
  valid :: bool
  subscriptionId :: string
  expiryDate :: "number option"

text \<open>\<open>entry?.expires_date_ms ? parseInt(entry.expires_date_ms, 10) : undefined\<close>\<close>

definition expiry_date :: "receipt_entry option \<Rightarrow> number option" where
  "expiry_date entry =
     (case entry of
        None \<Rightarrow> None
      | Some e \<Rightarrow>
          (case expires_date_ms e of
             None \<Rightarrow> None
           | Some ms \<Rightarrow> if ms = [] then None else Some (parseInt ms)))"

text \<open>\<open>data.receipt?.original_transaction_id || ''\<close>\<close>

definition transaction_id :: "apple_data \<Rightarrow> string" where
  "transaction_id d = (case original_transaction_id d of None \<Rightarrow> [] | Some i \<Rightarrow> i)"

text \<open>
  The sandbox retry, inside the outer \<open>try\<close>: the latest entry is found by the reduction.
\<close>

definition verify_sandbox :: "env \<Rightarrow> string \<Rightarrow> error + VerificationResult" where
  "verify_sandbox env receiptData =
     (case apple_sandbox env receiptData of
        AppleThrows \<Rightarrow> Inl (Error ''fetch failed'')
      | AppleData sandboxData \<Rightarrow>
          (case (case latest_receipt_info sandboxData of
                   None \<Rightarrow> Inr None
                 | Some infos \<Rightarrow> map_sum (\<lambda>e. e) Some (latest_of infos)) of
             Inl e \<Rightarrow> Inl e
           | Inr latestReceipt \<Rightarrow>
               Inr \<lparr> valid = (apple_status sandboxData = 0),
                     subscriptionId = transaction_id sandboxData,
                     expiryDate = expiry_date latestReceipt \<rparr>))"

text \<open>
  The production call: status 21007 hands over to the sandbox; otherwise the expiry is
  read from the first entry, \<open>data.latest_receipt_info?.[0]\<close>.
\<close>

definition verify_production :: "env \<Rightarrow> string \<Rightarrow> error + VerificationResult" where
  "verify_production env receiptData =
     (if APPLE_SHARED_SECRET env = None \<or> APPLE_SHARED_SECRET env = Some []
      then Inl (Error ''Missing Apple shared secret'')
      else (case apple_production env receiptData of
              AppleThrows \<Rightarrow> Inl (Error ''fetch failed'')
            | AppleData d \<Rightarrow>
                if apple_status d = 21007 then verify_sandbox env receiptData
                else Inr \<lparr> valid = (apple_status d = 0),
                           subscriptionId = transaction_id d,
                           expiryDate = expiry_date
                             (case latest_receipt_info d of
                                None \<Rightarrow> None
                              | Some [] \<Rightarrow> None
                              | Some (first # rest) \<Rightarrow> Some first) \<rparr>))"

text \<open>\<open>verifyAppleReceipt\<close>: whatever is thrown inside becomes an invalid result.\<close>

definition verifyAppleReceipt :: "env \<Rightarrow> string \<Rightarrow> VerificationResult" where
  "verifyAppleReceipt env receiptData =
     (case verify_production env receiptData of
        Inl e \<Rightarrow> \<lparr> valid = False, subscriptionId = [], expiryDate = None \<rparr>
      | Inr res \<Rightarrow> res)"

section \<open>app/api/device/register/route.ts\<close>

text \<open>\<open>validated.platform === 'ios' ? 'apns' : 'fcm'\<close>\<close>

fun push_platform :: "mobile_platform \<Rightarrow> string" where
  "push_platform ios = ''apns''"
| "push_platform android = ''fcm''"

text \<open>
  \<open>RegisterDeviceSchema\<close>: the device id and the device name must not be empty; the push
  token is optional.
\<close>

record register_body =
  rb_deviceId :: string
  rb_deviceName :: string
  rb_platform :: mobile_platform
  rb_osVersion :: string
  rb_appVersion :: string
  rb_pushToken :: "string option"

definition RegisterDeviceSchema :: "register_body parsed_body \<Rightarrow> error + register_body" where
  "RegisterDeviceSchema p =
     (case parse_body p of
        Inl e \<Rightarrow> Inl e
      | Inr v \<Rightarrow>
          if rb_deviceId v = [] \<or> rb_deviceName v = [] then Inl (ZodError ''Too small'')
          else Inr v)"

text \<open>
  \<open>device.upsert\<close> by the unique \<open>deviceId\<close>: an existing row gets the new name, versions,
  time and \<open>isActive\<close>, and keeps its \<open>userId\<close>; a new row is the caller's. The \<open>create\<close>
  argument carries \<open>platform: validated.platform as 'IOS' | 'ANDROID'\<close>: at run time that
  is still \<open>'ios'\<close> or \<open>'android'\<close>, which is not a value of \<open>Platform\<close>, and the client
  refuses the query before it reaches the store.
\<close>

definition refreshed :: "env \<Rightarrow> register_body \<Rightarrow> Device \<Rightarrow> Device" where
  "refreshed env validated d =
     d\<lparr> d_deviceName := rb_deviceName validated, d_osVersion := rb_osVersion validated,
        d_appVersion := rb_appVersion validated, d_lastSeen := now env, d_isActive := True \<rparr>"

definition new_device :: "env \<Rightarrow> AuthUser \<Rightarrow> register_body \<Rightarrow> Platform \<Rightarrow> Device" where
  "new_device env user validated platform =
     \<lparr> d_id = gen_id env ''Device'', d_userId = userId user,
       d_deviceId = rb_deviceId validated, d_deviceName = rb_deviceName validated,
       d_platform = platform,
       d_osVersion = rb_osVersion validated, d_appVersion = rb_appVersion validated,
       d_lastSeen = now env, d_isActive = True \<rparr>"

definition upsert_device :: "env \<Rightarrow> AuthUser \<Rightarrow> register_body \<Rightarrow> Device list \<Rightarrow> error + (Device \<times> Device list)" where
  "upsert_device env user validated rows =
     (case Platform_of (platform_str (rb_platform validated)) of
        None \<Rightarrow> Inl (Error ''Invalid value for argument `platform`. Expected Platform.'')
      | Some platform \<Rightarrow>
          upsert d_id (\<lambda>d. d_deviceId d = rb_deviceId validated) (refreshed env validated)
            (new_device env user validated platform) rows)"

text \<open>
  \<open>existingToken && existingToken.device && existingToken.device.userId !== user.userId\<close>,
  with \<open>existingToken\<close> found by the unique \<open>token\<close> and its device by the foreign key.
\<close>

definition token_of_another_user :: "store \<Rightarrow> AuthUser \<Rightarrow> string \<Rightarrow> bool" where
  "token_of_another_user s user pushToken =
     (case find (\<lambda>t. pt_token t = pushToken) (pushTokens s) of
        None \<Rightarrow> False
      | Some existingToken \<Rightarrow>
          (case find (\<lambda>d. d_id d = pt_deviceId existingToken) (devices s) of
             None \<Rightarrow> False
           | Some owner \<Rightarrow> d_userId owner \<noteq> userId user))"

text \<open>
  The transaction: it throws before it writes, so a rollback leaves the store as it was.
\<close>

definition register_token :: "env \<Rightarrow> AuthUser \<Rightarrow> register_body \<Rightarrow> Device \<Rightarrow> string \<Rightarrow> store \<Rightarrow> error + store" where
  "register_token env user validated device pushToken s =
     (if token_of_another_user s user pushToken
      then Inl (Error ''Push token belongs to another user'')
      else (case upsert pt_id (\<lambda>t. pt_token t = pushToken)
                   (\<lambda>t. t\<lparr> pt_deviceId := d_id device,
                           pt_platform := push_platform (rb_platform validated),
                           pt_isActive := True \<rparr>)
                   \<lparr> pt_id = gen_id env ''PushToken'', pt_deviceId = d_id device,
                     pt_token = pushToken,
                     pt_platform = push_platform (rb_platform validated),
                     pt_isActive = True \<rparr>
                   (pushTokens s) of
              Inl e \<Rightarrow> Inl e
            | Inr (stored, tokens) \<Rightarrow> Inr (s\<lparr> pushTokens := tokens \<rparr>)))"

text \<open>
  What follows the upsert: the owner of the row is compared with the caller, then a push
  token that is present and not empty is registered.
\<close>

definition register_owned :: "env \<Rightarrow> AuthUser \<Rightarrow> register_body \<Rightarrow> Device \<Rightarrow> store \<Rightarrow> (error + response) \<times> store" where
  "register_owned env user validated device s1 =
     (if d_userId device \<noteq> userId user
      then (Inl (Error ''Device belongs to another user''), s1)
      else (case rb_pushToken validated of
              None \<Rightarrow> (Inr (success (JObj [(''deviceId'', JStr (d_id device))])), s1)
            | Some pushToken \<Rightarrow>
                if pushToken = []
                then (Inr (success (JObj [(''deviceId'', JStr (d_id device))])), s1)
                else (case register_token env user validated device pushToken s1 of
                        Inl e \<Rightarrow> (Inl e, s1)
                      | Inr s2 \<Rightarrow>
                          (Inr (success (JObj [(''deviceId'', JStr (d_id device))])), s2))))"

text \<open>
  What follows the schema: the device is upserted first (outside any transaction, so a
  row it wrote stays written), then comes the rest.
\<close>

definition register_device :: "env \<Rightarrow> AuthUser \<Rightarrow> register_body \<Rightarrow> store \<Rightarrow> (error + response) \<times> store" where
  "register_device env user validated s =
     (case upsert_device env user validated (devices s) of
        Inl e \<Rightarrow> (Inl e, s)
      | Inr (device, rows) \<Rightarrow> register_owned env user validated device (s\<lparr> devices := rows \<rparr>))"

definition register_try :: "env \<Rightarrow> register_body request \<Rightarrow> store \<Rightarrow> redis \<Rightarrow> (error + response) \<times> store \<times> redis" where
  "register_try env req s r =
     (case verifyAuth (verify env) req of
        Inl e \<Rightarrow> (Inl e, s, r)
      | Inr user \<Rightarrow>
          (case rateLimit (eval_throws env) (now env) r (''device_register:'' @ userId user) 10 60 of
             (Inl e, r') \<Rightarrow> (Inl e, s, r')
           | (Inr limited, r') \<Rightarrow>
               if \<not> allowed limited then (Inr (failure 429 ''Too many requests''), s, r')
               else (case RegisterDeviceSchema (payload req) of
                       Inl e \<Rightarrow> (Inl e, s, r')
                     | Inr validated \<Rightarrow>
                         (let (res, s') = register_device env user validated s
                          in (res, s', r')))))"

definition POST_register :: "env \<Rightarrow> register_body request \<Rightarrow> store \<Rightarrow> redis \<Rightarrow> response \<times> store \<times> redis" where
  "POST_register env req s r =
     (case register_try env req s r of
        (Inr res, s', r') \<Rightarrow> (res, s', r')
      | (Inl e, s', r') \<Rightarrow>
          (if isZodError e then failure 400 ''Invalid request data''
           else if message e = ''Push token belongs to another user'' \<or>
                   message e = ''Device belongs to another user''
           then failure 403 (message e)
           else failure 500 ''Device registration failed'',
           s', r'))"

section \<open>app/api/scan/report/route.ts\<close>

datatype scan_type = quick | full | custom

datatype scan_status = completed | failed | cancelled

datatype severity_name = low | medium | high | critical

fun scan_type_str :: "scan_type \<Rightarrow> string" where
  "scan_type_str quick = ''quick''"
| "scan_type_str full = ''full''"
| "scan_type_str custom = ''custom''"

fun scan_status_str :: "scan_status \<Rightarrow> string" where
  "scan_status_str completed = ''completed''"
| "scan_status_str failed = ''failed''"
| "scan_status_str cancelled = ''cancelled''"

fun severity_str :: "severity_name \<Rightarrow> string" where
  "severity_str low = ''low''"
| "severity_str medium = ''medium''"
| "severity_str high = ''high''"
| "severity_str critical = ''critical''"

text \<open>\<open>threat.severity.toUpperCase()\<close>\<close>

fun severity_upper :: "severity_name \<Rightarrow> string" where
  "severity_upper low = ''LOW''"
| "severity_upper medium = ''MEDIUM''"
| "severity_upper high = ''HIGH''"
| "severity_upper critical = ''CRITICAL''"

text \<open>
  \<open>ScanReportSchema\<close>: the two counts are \<open>z.number().int().min(0)\<close>, integers that are
  not negative and not beyond the safe integers; the two date-times are held as the
  milliseconds \<open>new Date(...)\<close> makes of them.
\<close>

definition safe_count :: "int \<Rightarrow> bool" where
  "safe_count n \<longleftrightarrow> 0 \<le> n \<and> n \<le> 9007199254740991"

record reported_threat =
  rt_fileName :: string
  rt_filePath :: string
  rt_fileHash :: string
  rt_threatName :: string
  rt_severity :: severity_name

record scan_body =
  sr_deviceId :: string
  sr_scanType :: scan_type
  sr_status :: scan_status
  sr_filesScanned :: int
  sr_threatsFound :: int
  sr_startedAt :: int
  sr_completedAt :: "int option"
  sr_threats :: "reported_threat list option"

definition ScanReportSchema :: "scan_body parsed_body \<Rightarrow> error + scan_body" where
  "ScanReportSchema p =
     (case parse_body p of
        Inl e \<Rightarrow> Inl e
      | Inr v \<Rightarrow>
          if safe_count (sr_filesScanned v) \<and> safe_count (sr_threatsFound v) then Inr v
          else Inl (ZodError ''Invalid input''))"

definition threat_json :: "reported_threat \<Rightarrow> json" where
  "threat_json t =
     JObj [(''fileName'', JStr (rt_fileName t)), (''filePath'', JStr (rt_filePath t)),
           (''fileHash'', JStr (rt_fileHash t)), (''threatName'', JStr (rt_threatName t)),
           (''severity'', JStr (severity_str (rt_severity t)))]"

text \<open>
  The row that \<open>createMany\<close> is given for the threat at position \<open>k\<close>, as the handler
  writes it: it names the reporting device, it carries the reported \<open>threatName\<close>, and its
  \<open>threatSignatureId\<close> is a fresh \<open>randomUUID()\<close>.
\<close>

definition quarantine_row :: "env \<Rightarrow> Device \<Rightarrow> nat \<Rightarrow> reported_threat \<Rightarrow> (string \<times> json) list" where
  "quarantine_row env device k threat =
     [(''deviceId'', JStr (d_id device)),
      (''fileName'', JStr (rt_fileName threat)),
      (''filePath'', JStr (rt_filePath threat)),
      (''fileSize'', JNum 0),
      (''fileHash'', JStr (rt_fileHash threat)),
      (''threatName'', JStr (rt_threatName threat)),
      (''threatSignatureId'', JStr (randomUUID env k)),
      (''severity'', JStr (severity_upper (rt_severity threat))),
      (''status'', JStr ''QUARANTINED'')]"

text \<open>The columns of the \<open>Quarantine\<close> table, as the migration creates it.\<close>

definition Quarantine_columns :: "string list" where
  "Quarantine_columns =
     [''id'', ''deviceId'', ''fileName'', ''filePath'', ''fileSize'', ''fileHash'', ''severity'',
      ''status'', ''storageKey'', ''storageUrl'', ''uploadStatus'', ''uploadedAt'', ''metadata'',
      ''createdAt'', ''updatedAt'', ''threatSignatureId'']"

text \<open>
  \<open>quarantine.createMany\<close>. A row may only name columns of the table. The migration
  declares the foreign key \<open>Quarantine_threatSignatureId_fkey\<close> to \<open>ThreatSignature(id)\<close>:
  the store refuses a row whose \<open>threatSignatureId\<close> is not the id of a signature. (The
  other foreign keys of the rows written here point to the device that the handler has
  just read.)
\<close>

definition known_columns :: "(string \<times> json) list \<Rightarrow> bool" where
  "known_columns row = list_all (\<lambda>k. k \<in> set Quarantine_columns) (map fst row)"

definition signature_exists :: "store \<Rightarrow> (string \<times> json) list \<Rightarrow> bool" where
  "signature_exists s row =
     (case map_of row ''threatSignatureId'' of
        Some (JStr i) \<Rightarrow> list_ex (\<lambda>t. ts_id t = i) (threatSignatures s)
      | _ \<Rightarrow> False)"

definition createMany_quarantine :: "(string \<times> json) list list \<Rightarrow> store \<Rightarrow> error + store" where
  "createMany_quarantine rows s =
     (if \<not> list_all known_columns rows
      then Inl (Error ''Unknown argument `threatName`.'')
      else if \<not> list_all (signature_exists s) rows
      then Inl (Error ''Foreign key constraint violated: Quarantine_threatSignatureId_fkey'')
      else Inr (s\<lparr> quarantines := quarantines s @ rows \<rparr>))"

definition scan_log :: "env \<Rightarrow> Device \<Rightarrow> scan_body \<Rightarrow> int \<Rightarrow> ScanLog" where
  "scan_log env device validated completedAt =
     \<lparr> sl_id = gen_id env ''ScanLog'', sl_deviceId = d_id device,
       sl_scanType = scan_type_str (sr_scanType validated),
       sl_status = scan_status_str (sr_status validated),
       sl_filesScanned = sr_filesScanned validated,
       sl_threatsFound = sr_threatsFound validated,
       sl_startedAt = sr_startedAt validated,
       sl_completedAt = (if sr_status validated = completed then Some completedAt else None),
       sl_duration = (if sr_status validated = completed
                      then Some (completedAt - sr_startedAt validated) else None),
       sl_metadata = (case sr_threats validated of
                        None \<Rightarrow> None
                      | Some threats \<Rightarrow> Some (JObj [(''threats'', JArr (map threat_json threats))])) \<rparr>"

definition scan_telemetry :: "AuthUser \<Rightarrow> scan_body \<Rightarrow> int \<Rightarrow> TelemetryLog" where
  "scan_telemetry user validated duration =
     \<lparr> tl_userId = userId user, tl_eventType = ''scan_completed'',
       tl_eventData = JObj
         [(''scanType'', JStr (scan_type_str (sr_scanType validated))),
          (''filesScanned'', JNum (real_of_int (sr_filesScanned validated))),
          (''threatsFound'', JNum (real_of_int (sr_threatsFound validated))),
          (''duration'', JNum (real_of_int duration))] \<rparr>"

fun threats_of :: "reported_threat list option \<Rightarrow> reported_threat list" where
  "threats_of None = []"
| "threats_of (Some threats) = threats"

text \<open>
  \<open>scanLog.create\<close>: \<open>filesScanned\<close>, \<open>threatsFound\<close> and \<open>duration\<close> are \<open>INTEGER\<close>
  columns.
\<close>

definition create_scan_log :: "ScanLog \<Rightarrow> ScanLog list \<Rightarrow> error + ScanLog list" where
  "create_scan_log scanLog rows =
     (if int4 (sl_filesScanned scanLog) \<and> int4 (sl_threatsFound scanLog) \<and>
         (case sl_duration scanLog of None \<Rightarrow> True | Some d \<Rightarrow> int4 d)
      then create_keyed sl_id scanLog rows
      else Inl (Error ''Unable to fit integer value into an INT4''))"

text \<open>
  The transaction: the scan log, the quarantine rows when there are threats, the
  telemetry row. An exception inside it rolls everything back, so the result is either the
  new store or the error alone.
\<close>

definition scan_transaction :: "env \<Rightarrow> AuthUser \<Rightarrow> scan_body \<Rightarrow> Device \<Rightarrow> int \<Rightarrow> store \<Rightarrow> error + (ScanLog \<times> store)" where
  "scan_transaction env user validated device completedAt s =
     (let scanLog = scan_log env device validated completedAt
      in case create_scan_log scanLog (scanLogs s) of
           Inl e \<Rightarrow> Inl e
         | Inr logs \<Rightarrow>
             (case (if threats_of (sr_threats validated) \<noteq> []
                    then createMany_quarantine
                           (map (\<lambda>(k, threat). quarantine_row env device k threat)
                              (enumerate 0 (threats_of (sr_threats validated))))
                           (s\<lparr> scanLogs := logs \<rparr>)
                    else Inr (s\<lparr> scanLogs := logs \<rparr>)) of
                Inl e \<Rightarrow> Inl e
              | Inr s1 \<Rightarrow>
                  Inr (scanLog,
                       s1\<lparr> telemetryLogs := telemetryLogs s1 @
                             [scan_telemetry user validated
                                (completedAt - sr_startedAt validated)] \<rparr>)))"

definition report_try :: "env \<Rightarrow> scan_body request \<Rightarrow> store \<Rightarrow> (error + response) \<times> store" where
  "report_try env req s =
     (case verifyAuth (verify env) req of
        Inl e \<Rightarrow> (Inl e, s)
      | Inr user \<Rightarrow>
          (case ScanReportSchema (payload req) of
             Inl e \<Rightarrow> (Inl e, s)
           | Inr validated \<Rightarrow>
               (case find (\<lambda>d. d_id d = sr_deviceId validated \<and> d_userId d = userId user) (devices s) of
                  None \<Rightarrow> (Inr (failure 404 ''Device not found''), s)
                | Some device \<Rightarrow>
                    (let completedAt = (case sr_completedAt validated of
                                          None \<Rightarrow> now env
                                        | Some c \<Rightarrow> c)
                     in if sr_startedAt validated > completedAt
                        then (Inr (failure 400
                                ''Invalid timestamps: startedAt must be before or equal to completedAt''), s)
                        else (case scan_transaction env user validated device completedAt s of
                                Inl e \<Rightarrow> (Inl e, s)
                              | Inr (scanLog, s') \<Rightarrow>
                                  (Inr (success (JObj [(''scanLogId'', JStr (sl_id scanLog))])), s'))))))"

definition POST_report :: "env \<Rightarrow> scan_body request \<Rightarrow> store \<Rightarrow> response \<times> store" where
  "POST_report env req s =
     (case report_try env req s of
        (Inr res, s') \<Rightarrow> (res, s')
      | (Inl e, s') \<Rightarrow>
          (if isZodError e then failure 400 ''Invalid request data''
           else failure 500 ''Scan report failed'',
           s'))"

section \<open>app/api/url/classify/route.ts\<close>

definition classification :: "bool \<Rightarrow> string option \<Rightarrow> json" where
  "classification isSafe threatType =
     (case threatType of
        None \<Rightarrow> JObj [(''isSafe'', JBool isSafe)]
      | Some t \<Rightarrow> JObj [(''isSafe'', JBool isSafe), (''category'', JStr t),
                         (''reason'', JStr (''This URL is flagged as '' @ t))])"

text \<open>
  \<open>classifyUrlWithThreatIntel\<close>: the missing key is thrown before the \<open>try\<close>; every
  failure inside the \<open>try\<close> is caught and fails open.
\<close>

definition classifyUrlWithThreatIntel :: "env \<Rightarrow> string \<Rightarrow> error + json" where
  "classifyUrlWithThreatIntel env url =
     (if GOOGLE_SAFE_BROWSING_KEY env = None \<or> GOOGLE_SAFE_BROWSING_KEY env = Some []
      then Inl (Error ''GOOGLE_SAFE_BROWSING_KEY is not configured'')
      else (case safe_browsing env of
              FetchThrows m \<Rightarrow> Inr (classification True None)
            | FetchResponse okay st ms \<Rightarrow>
                if \<not> okay then Inr (classification True None)
                else (case ms of
                        Some (t # ts) \<Rightarrow> Inr (classification False (Some t))
                      | _ \<Rightarrow> Inr (classification True None))))"

text \<open>The \<open>try\<close> block of the handler: the first exception ends it.\<close>

definition classify_try :: "env \<Rightarrow> string request \<Rightarrow> error + response" where
  "classify_try env req =
     (case verifyAuth (verify env) req of
        Inl e \<Rightarrow> Inl e
      | Inr user \<Rightarrow>
          (case parse_body (payload req) of
             Inl e \<Rightarrow> Inl e
           | Inr url \<Rightarrow>
               (case classifyUrlWithThreatIntel env url of
                  Inl e \<Rightarrow> Inl e
                | Inr c \<Rightarrow> Inr (success c))))"

text \<open>
  The handler. Its \<open>catch\<close> returns a response only for a message that includes
  \<open>Unauthorized\<close>; otherwise the function ends without a \<open>return\<close>, and the result is
  \<open>undefined\<close>, here None.
\<close>

definition POST_classify :: "env \<Rightarrow> string request \<Rightarrow> response option" where
  "POST_classify env req =
     (case classify_try env req of
        Inr r \<Rightarrow> Some r
      | Inl e \<Rightarrow>
          if includes_str (message e) ''Unauthorized''
          then Some (failure 401 ''Unauthorized'')
          else None)"

section \<open>Sample data\<close>

text \<open>
  The rows of the seed script (a user, their device and its push token, one hash
  signature), a key-value store that holds nothing, and an environment in which the token
  \<open>jwt-user-001\<close> is the seeded user's, \<open>jwt-user-002\<close> is another user's, and every
  push is delivered.
\<close>

definition seed_user :: AuthUser where
  "seed_user = \<lparr> userId = ''user-001'', email = ''user@example.com'' \<rparr>"

definition seed_device :: Device where
  "seed_device = \<lparr> d_id = ''dev-1'', d_userId = ''user-001'', d_deviceId = ''device-001'',
     d_deviceName = ''Pixel 8 Pro'', d_platform = ANDROID, d_osVersion = ''14.0'',
     d_appVersion = ''1.0.0'', d_lastSeen = 0, d_isActive = True \<rparr>"

definition seed_token :: PushToken where
  "seed_token = \<lparr> pt_id = ''tok-1'', pt_deviceId = ''dev-1'', pt_token = ''push-token-xyz'',
     pt_platform = ''android'', pt_isActive = True \<rparr>"

definition seed_signature :: ThreatSignature where
  "seed_signature = \<lparr> ts_id = ''sig-1'', ts_type = HASH, ts_signature = replicate 64 (CHR ''a''),
     ts_threatName = ''Trojan.Android.Generic'', ts_severity = ''CRITICAL'',
     ts_category = ''TROJAN'', ts_isActive = True \<rparr>"

definition google_user :: User where
  "google_user = \<lparr> u_id = ''user-001'', u_email = ''user@example.com'', u_name = Some ''Test User'',
     u_passwordHash = None, u_updatedAt = 0 \<rparr>"

definition seed_store :: store where
  "seed_store = \<lparr> users = [google_user], devices = [seed_device], pushTokens = [seed_token],
     threatSignatures = [seed_signature], scanLogs = [], quarantines = [], antiTheftCommands = [],
     subscriptions = [], telemetryLogs = [] \<rparr>"

definition empty_redis :: redis where
  "empty_redis = \<lparr> zsets = (\<lambda>k. \<lparr> entries = [], expiresAt = None \<rparr>), counters = (\<lambda>k. 0),
     cache = (\<lambda>k. None) \<rparr>"

definition other_user :: AuthUser where
  "other_user = \<lparr> userId = ''user-002'', email = ''mail@example.com'' \<rparr>"

definition seed_env :: env where
  "seed_env = \<lparr> verify = (\<lambda>t. if t = ''jwt-user-001'' then Some seed_user
                                else if t = ''jwt-user-002'' then Some other_user else None),
     now = 1700000000000, gen_id = (\<lambda>t. ''new-'' @ t), randomUUID = (\<lambda>k. ''uuid''),
     eval_throws = False, mget_throws = False, exec_throws = False, exec_empty_throws = True,
     send = (\<lambda>m. Inr ''message-1''), GOOGLE_SAFE_BROWSING_KEY = None,
     safe_browsing = FetchThrows [], login_limit = (\<lambda>i. Inr True),
     bcrypt_compare = (\<lambda>password h. h = ''bcrypt:'' @ password),
     jwt_sign = (\<lambda>uid mail. ''jwt-'' @ uid), APPLE_SHARED_SECRET = Some ''shared-secret'',
     apple_production = (\<lambda>receipt. AppleThrows), apple_sandbox = (\<lambda>receipt. AppleThrows) \<rparr>"

definition bearer :: "'a parsed_body \<Rightarrow> 'a request" where
  "bearer p = \<lparr> headers = [''authorization'' \<mapsto> ''Bearer jwt-user-001''], payload = p \<rparr>"


text \<open>
  The seeded LOCATE command, still PENDING, a RING command beside it, and a location report
  for the first.
\<close>

definition seed_command :: AntiTheftCommand where
  "seed_command = \<lparr> ac_id = ''cmd-1'', ac_deviceId = ''dev-1'', ac_commandType = LOCATE,
     ac_status = PENDING, ac_issuedBy = ''admin-001'', ac_executedAt = None,
     ac_metadata = JObj [(''reason'', JStr ''Security test'')] \<rparr>"

definition ring_command :: AntiTheftCommand where
  "ring_command = \<lparr> ac_id = ''cmd-2'', ac_deviceId = ''dev-1'', ac_commandType = RING,
     ac_status = SENT, ac_issuedBy = ''user-001'', ac_executedAt = None, ac_metadata = JObj [] \<rparr>"

definition command_store :: store where
  "command_store = seed_store \<lparr> antiTheftCommands := [seed_command, ring_command] \<rparr>"

definition location_report :: location_body where
  "location_report = \<lparr> lb_deviceId = ''dev-1'', lb_commandId = ''cmd-1'', latitude = 51,
     longitude = - 1, accuracy = 10, timestamp = ''2024-01-01T00:00:00Z'' \<rparr>"

text \<open>
  Beside the seeded user, who signs in with Google and has no password hash, a user with
  a password; and a login request that comes through a proxy.
\<close>

definition email_user :: User where
  "email_user = \<lparr> u_id = ''user-002'', u_email = ''mail@example.com'', u_name = None,
     u_passwordHash = Some ''bcrypt:correct horse'', u_updatedAt = 0 \<rparr>"

definition user_store :: store where
  "user_store = seed_store \<lparr> users := [google_user, email_user] \<rparr>"

definition login_request :: "string \<Rightarrow> string \<Rightarrow> login_body request" where
  "login_request mail password =
     \<lparr> headers = [''x-forwarded-for'' \<mapsto> ''203.0.113.7, 10.0.0.1''],
       payload = Validated \<lparr> lg_email = mail, lg_password = password,
         lg_deviceInfo = \<lparr> di_deviceId = ''device-001'', di_deviceName = ''Pixel 8 Pro'',
           di_platform = android, di_osVersion = ''14.0'', di_appVersion = ''1.0.0'' \<rparr> \<rparr> \<rparr>"

text \<open>
  A batch of one hash, the seeded signature's, and the store before that signature was
  uploaded. In \<open>recheck\<close> the batch is checked against that store first; a minute later,
  with the signature uploaded, it is checked again with the key-value store as the first
  request left it. The result is the second answer.
\<close>

definition hash_request :: "hash_body request" where
  "hash_request = bearer (Validated \<lparr> hashes = [replicate 64 (CHR ''a'')], hb_deviceId = ''dev-1'' \<rparr>)"



text \<open>
  A vendor answer with two latest-receipt entries, the later one second; and the answer
  that redirects a sandbox receipt.
\<close>

definition renewed_twice :: apple_data where
  "renewed_twice = \<lparr> apple_status = 0, original_transaction_id = Some ''1000000000000001'',
     latest_receipt_info = Some [\<lparr> expires_date_ms = Some ''1700000000000'' \<rparr>,
                                 \<lparr> expires_date_ms = Some ''1702592000000'' \<rparr>] \<rparr>"

definition redirect :: apple_data where
  "redirect = \<lparr> apple_status = 21007, original_transaction_id = None, latest_receipt_info = None \<rparr>"

text \<open>
  The other user tries to register the seeded user's device, and then a device of their
  own with the seeded user's push token.
\<close>

definition claim_device :: "register_body request" where
  "claim_device = \<lparr> headers = [''authorization'' \<mapsto> ''Bearer jwt-user-002''],
     payload = Validated \<lparr> rb_deviceId = ''device-001'', rb_deviceName = ''Mine now'',
       rb_platform = android, rb_osVersion = ''14.0'', rb_appVersion = ''1.0.0'',
       rb_pushToken = None \<rparr> \<rparr>"

definition claim_token :: "register_body request" where
  "claim_token = \<lparr> headers = [''authorization'' \<mapsto> ''Bearer jwt-user-002''],
     payload = Validated \<lparr> rb_deviceId = ''device-002'', rb_deviceName = ''Second phone'',
       rb_platform = android, rb_osVersion = ''14.0'', rb_appVersion = ''1.0.0'',
       rb_pushToken = Some ''push-token-xyz'' \<rparr> \<rparr>"

text \<open>
  A report of a finished full scan of the seeded device that found two threats.
\<close>

definition trojan :: reported_threat where
  "trojan = \<lparr> rt_fileName = ''malware.apk'', rt_filePath = ''/storage/emulated/0/Download/malware.apk'',
     rt_fileHash = ''deadbeefdeadbeefdeadbeefdeadbeef'', rt_threatName = ''Trojan.Android.Generic'',
     rt_severity = high \<rparr>"

definition adware :: reported_threat where
  "adware = \<lparr> rt_fileName = ''popup.apk'', rt_filePath = ''/storage/emulated/0/Download/popup.apk'',
     rt_fileHash = ''feedfacefeedfacefeedfacefeedface'', rt_threatName = ''Android.Adware.Popup'',
     rt_severity = medium \<rparr>"

definition scan_report :: scan_body where
  "scan_report = \<lparr> sr_deviceId = ''dev-1'', sr_scanType = full, sr_status = completed,
     sr_filesScanned = 1520, sr_threatsFound = 2, sr_startedAt = 1699999997000,
     sr_completedAt = Some 1700000000000, sr_threats = Some [trojan, adware] \<rparr>"

text \<open>An environment whose \<open>randomUUID()\<close> gives the id of the seeded signature.\<close>

definition matching_env :: env where
  "matching_env = seed_env \<lparr> randomUUID := (\<lambda>k. ''sig-1'') \<rparr>"

section \<open>Properties of the URL classification route\<close>

lemma POST_classify_None_iff:
  "POST_classify env req = None \<longleftrightarrow>
     (\<exists>e. classify_try env req = Inl e \<and> \<not> includes_str (message e) ''Unauthorized'')"
  by (cases "classify_try env req") (simp_all add: POST_classify_def)

lemma classify_missing_key_throws:
  assumes "verifyAuth (verify env) req = Inr user"
    and "payload req = Validated url"
    and "GOOGLE_SAFE_BROWSING_KEY env = None"
  shows "classify_try env req = Inl (Error ''GOOGLE_SAFE_BROWSING_KEY is not configured'')"
  using assms by (simp add: classify_try_def classifyUrlWithThreatIntel_def)

lemma classify_zod_throws:
  assumes "verifyAuth (verify env) req = Inr user"
    and "payload req = ZodInvalid m"
  shows "classify_try env req = Inl (ZodError m)"
  using assms by (simp add: classify_try_def)

lemma key_message_not_unauthorized:
  "\<not> includes_str ''GOOGLE_SAFE_BROWSING_KEY is not configured'' ''Unauthorized''"
  by simp

lemma verifyAuth_bearer:
  "jwt tok = Some u \<Longrightarrow> headers req ''authorization'' = Some (''Bearer '' @ tok) \<Longrightarrow>
   verifyAuth jwt req = Inr u"
  by (simp add: verifyAuth_def)

text \<open>
  C9. The classification handler has inputs on which it returns nothing at all: an
  authenticated, well-formed request when the Safe Browsing key is not configured (the
  helper throws before its own \<open>try\<close>), and an authenticated request whose body fails
  the schema. In both the \<open>catch\<close> block falls off its end, so no JSON envelope is
  produced.
\<close>

theorem POST_classify_no_response:
  "(\<exists>env req user url.
      verifyAuth (verify env) req = Inr user \<and> payload req = Validated url \<and>
      POST_classify env req = None) \<and>
   (\<exists>env req user m.
      verifyAuth (verify env) req = Inr user \<and> payload req = ZodInvalid m \<and>
      POST_classify env req = None)"
proof
  define u where "u = \<lparr> userId = ''user-001'', email = ''user@example.com'' \<rparr>"
  define env where "env = seed_env \<lparr> verify := (\<lambda>t. Some u), GOOGLE_SAFE_BROWSING_KEY := None \<rparr>"
  define req1 :: "string request" where "req1 = bearer (Validated ''https://example.com/'')"
  define req2 :: "string request" where "req2 = bearer (ZodInvalid ''Invalid url'')"
  have a1: "verifyAuth (verify env) req1 = Inr u"
    by (rule verifyAuth_bearer [of _ "''jwt-user-001''"]) (simp_all add: env_def req1_def bearer_def)
  have a2: "verifyAuth (verify env) req2 = Inr u"
    by (rule verifyAuth_bearer [of _ "''jwt-user-001''"]) (simp_all add: env_def req2_def bearer_def)
  have p1: "payload req1 = Validated ''https://example.com/''"
    by (simp add: req1_def bearer_def)
  have p2: "payload req2 = ZodInvalid ''Invalid url''"
    by (simp add: req2_def bearer_def)
  have k: "GOOGLE_SAFE_BROWSING_KEY env = None"
    by (simp add: env_def)
  have "POST_classify env req1 = None"
    unfolding POST_classify_None_iff
    using classify_missing_key_throws [OF a1 p1 k] key_message_not_unauthorized by simp
  with a1 p1 show "\<exists>env req user url.
      verifyAuth (verify env) req = Inr user \<and> payload req = Validated url \<and>
      POST_classify env req = None"
    by blast
  have "POST_classify env req2 = None"
    unfolding POST_classify_None_iff
    using classify_zod_throws [OF a2 p2] by simp
  with a2 p2 show "\<exists>env req user m.
      verifyAuth (verify env) req = Inr user \<and> payload req = ZodInvalid m \<and>
      POST_classify env req = None"
    by blast
qed

section \<open>Properties of the command route\<close>

lemma push_one_commands:
  "antiTheftCommands (snd (push_one env c v t s)) = antiTheftCommands s"
  by (simp add: push_one_def split: sum.splits)

lemma push_one_fulfilled:
  "fst (push_one env c v t s) = delivered env c v t"
  by (simp add: push_one_def delivered_def split: sum.splits)

lemma push_all_commands:
  "antiTheftCommands (snd (push_all env c v ts s)) = antiTheftCommands s"
proof (induction ts arbitrary: s)
  case Nil
  show ?case by simp
next
  case (Cons t ts)
  obtain b s1 where one: "push_one env c v t s = (b, s1)" by (cases "push_one env c v t s")
  obtain bs s2 where rest: "push_all env c v ts s1 = (bs, s2)" by (cases "push_all env c v ts s1")
  have "antiTheftCommands s2 = antiTheftCommands s1" using Cons.IH [of s1] rest by simp
  moreover have "antiTheftCommands s1 = antiTheftCommands s" using push_one_commands [of env c v t s] one by simp
  ultimately show ?case using one rest by simp
qed

lemma push_all_fulfilled:
  "fst (push_all env c v ts s) = map (delivered env c v) ts"
proof (induction ts arbitrary: s)
  case Nil
  show ?case by simp
next
  case (Cons t ts)
  obtain b s1 where one: "push_one env c v t s = (b, s1)" by (cases "push_one env c v t s")
  obtain bs s2 where rest: "push_all env c v ts s1 = (bs, s2)" by (cases "push_all env c v ts s1")
  have "bs = map (delivered env c v) ts" using Cons.IH [of s1] rest by simp
  moreover have "b = delivered env c v t" using push_one_fulfilled [of env c v t s] one by simp
  ultimately show ?case using one rest by simp
qed

lemma count_fulfilled:
  "filter ((\<lambda>fulfilled. fulfilled) \<circ> f) ts = [] \<longleftrightarrow> \<not> list_ex f ts"
  by (simp add: comp_def list_ex_iff filter_empty_conv)

lemma find_modify_appended:
  assumes "\<not> list_ex (\<lambda>r. key r = k) rows" and "key row = k" and "key (f row) = k"
  shows "find (\<lambda>r. key r = k) (modify (\<lambda>r. key r = k) f (rows @ [row])) = Some (f row)"
  using assms by (induction rows) (auto simp: modify_def)


lemma dispatch_created:
  assumes fresh: "\<not> list_ex (\<lambda>c. ac_id c = gen_id env ''AntiTheftCommand'') (antiTheftCommands s)"
  shows "find (\<lambda>c. ac_id c = gen_id env ''AntiTheftCommand'')
           (antiTheftCommands (snd (dispatch env user validated device tokens s))) =
         Some ((new_command env user validated device)
                \<lparr> ac_status := (if list_ex (delivered env (new_command env user validated device) validated) tokens
                                 then SENT else FAILED) \<rparr>)"
proof -
  let ?c = "new_command env user validated device"
  let ?k = "gen_id env ''AntiTheftCommand''"
  have id: "ac_id ?c = ?k" by (simp add: new_command_def)
  have created: "create_keyed ac_id ?c (antiTheftCommands s) = Inr (antiTheftCommands s @ [?c])"
    using fresh by (simp add: create_keyed_def id)
  obtain rs s2 where pa: "push_all env ?c validated tokens (s\<lparr> antiTheftCommands := antiTheftCommands s @ [?c] \<rparr>) = (rs, s2)"
    by (cases "push_all env ?c validated tokens (s\<lparr> antiTheftCommands := antiTheftCommands s @ [?c] \<rparr>)")
  have rs: "rs = map (delivered env ?c validated) tokens"
    using push_all_fulfilled [of env ?c validated tokens "s\<lparr> antiTheftCommands := antiTheftCommands s @ [?c] \<rparr>"] pa by simp
  have cmds: "antiTheftCommands s2 = antiTheftCommands s @ [?c]"
    using push_all_commands [of env ?c validated tokens "s\<lparr> antiTheftCommands := antiTheftCommands s @ [?c] \<rparr>"] pa by simp
  have present: "list_ex (\<lambda>c. ac_id c = ?k) (antiTheftCommands s2)"
    by (simp add: cmds id list_ex_iff)
  let ?f = "\<lambda>c. c\<lparr> ac_status := (if list_ex (delivered env ?c validated) tokens then SENT else FAILED) \<rparr>"
  have found: "find (\<lambda>c. ac_id c = ?k) (modify (\<lambda>c. ac_id c = ?k) ?f (antiTheftCommands s @ [?c])) = Some (?f ?c)"
    by (rule find_modify_appended [OF fresh id]) (simp add: id)
  show ?thesis
    using created pa present found
    by (simp add: dispatch_def id update_unique_def cmds rs count_fulfilled Let_def)
qed


text \<open>
  C1. A command request that passes authentication, the rate limit, validation, the
  ownership check and the active-token check leaves the command row it created with
  status SENT when at least one delivery to the device's active tokens was accepted, and
  with status FAILED when none was.
\<close>

theorem command_status_reflects_deliveries:
  assumes auth: "verifyAuth (verify env) req = Inr user"
    and limit: "rateLimit (eval_throws env) (now env) r (''device_command:'' @ userId user) 10 3600
                  = (Inr limited, r')"
    and pass: "allowed limited"
    and valid: "payload req = Validated validated"
    and owned: "owned_active_device s (cb_deviceId validated) (userId user) = Some device"
    and tokens: "active_tokens s device \<noteq> []"
    and fresh: "\<not> list_ex (\<lambda>c. ac_id c = gen_id env ''AntiTheftCommand'') (antiTheftCommands s)"
  shows "find (\<lambda>c. ac_id c = gen_id env ''AntiTheftCommand'')
           (antiTheftCommands (fst (snd (POST_command env req s r)))) =
         Some ((new_command env user validated device)
                \<lparr> ac_status :=
                    (if list_ex (delivered env (new_command env user validated device) validated)
                          (active_tokens s device)
                     then SENT else FAILED) \<rparr>)"
proof -
  obtain res s' where d: "dispatch env user validated device (active_tokens s device) s = (res, s')"
    by (cases "dispatch env user validated device (active_tokens s device) s")
  have "command_try env req s r = (res, s', r')"
    using auth limit pass valid owned tokens d by (simp add: command_try_def)
  then have "fst (snd (POST_command env req s r)) = s'"
    by (cases res) (simp_all add: POST_command_def)
  moreover have "s' = snd (dispatch env user validated device (active_tokens s device) s)"
    using d by simp
  ultimately show ?thesis
    using dispatch_created [OF fresh] by simp
qed

theorem command_status_witness:
  "find (\<lambda>c. ac_id c = ''new-AntiTheftCommand'')
     (antiTheftCommands (fst (snd (POST_command seed_env
        (bearer (Validated \<lparr> cb_deviceId = ''dev-1'', cb_commandType = ring, cb_metadata = None \<rparr>))
        seed_store empty_redis)))) =
   Some \<lparr> ac_id = ''new-AntiTheftCommand'', ac_deviceId = ''dev-1'', ac_commandType = RING,
          ac_status = SENT, ac_issuedBy = ''user-001'', ac_executedAt = None,
          ac_metadata = JObj [] \<rparr> \<and>
   find (\<lambda>c. ac_id c = ''new-AntiTheftCommand'')
     (antiTheftCommands (fst (snd (POST_command
        (seed_env \<lparr> send := (\<lambda>m. Inl ''messaging/registration-token-not-registered'') \<rparr>)
        (bearer (Validated \<lparr> cb_deviceId = ''dev-1'', cb_commandType = ring, cb_metadata = None \<rparr>))
        seed_store empty_redis)))) =
   Some \<lparr> ac_id = ''new-AntiTheftCommand'', ac_deviceId = ''dev-1'', ac_commandType = RING,
          ac_status = FAILED, ac_issuedBy = ''user-001'', ac_executedAt = None,
          ac_metadata = JObj [] \<rparr>"
proof -
  let ?v = "\<lparr> cb_deviceId = ''dev-1'', cb_commandType = ring, cb_metadata = None \<rparr>"
  let ?req = "bearer (Validated ?v)"
  let ?env = "\<lambda>f. seed_env \<lparr> send := f \<rparr>"
  have auth: "verifyAuth (verify (?env f)) ?req = Inr seed_user" for f
    by (simp add: verifyAuth_def seed_env_def bearer_def)
  have limit: "rateLimit (eval_throws (?env f)) (now (?env f)) empty_redis
       (''device_command:'' @ userId seed_user) 10 3600
       = (Inr \<lparr> allowed = True, remaining = 9 \<rparr>,
          snd (rateLimit (eval_throws (?env f)) (now (?env f)) empty_redis
            (''device_command:'' @ userId seed_user) 10 3600))" for f
    by (simp add: rateLimit_def rateLimitScript_def seed_env_def empty_redis_def live_def
        zremrangebyscore_def Let_def)
  have pass: "allowed \<lparr> allowed = True, remaining = 9 \<rparr>" by simp
  have valid: "payload ?req = Validated ?v" by (simp add: bearer_def)
  have owned: "owned_active_device seed_store (cb_deviceId ?v) (userId seed_user) = Some seed_device"
    by (simp add: owned_active_device_def seed_store_def seed_device_def seed_user_def)
  have toks: "active_tokens seed_store seed_device = [seed_token]"
    by (simp add: active_tokens_def seed_store_def seed_device_def seed_token_def)
  have tokens: "active_tokens seed_store seed_device \<noteq> []" by (simp add: toks)
  have gen: "gen_id (?env f) ''AntiTheftCommand'' = ''new-AntiTheftCommand''" for f
    by (simp add: seed_env_def)
  have fresh: "\<not> list_ex (\<lambda>c. ac_id c = gen_id (?env f) ''AntiTheftCommand'')
      (antiTheftCommands seed_store)" for f
    by (simp add: seed_store_def)
  have row: "new_command (?env f) seed_user ?v seed_device \<lparr> ac_status := st \<rparr> =
        \<lparr> ac_id = ''new-AntiTheftCommand'', ac_deviceId = ''dev-1'', ac_commandType = RING,
          ac_status = st, ac_issuedBy = ''user-001'', ac_executedAt = None,
          ac_metadata = JObj [] \<rparr>" for f st
    by (simp add: new_command_def seed_env_def seed_device_def seed_user_def)
  have same: "?env (send seed_env) = seed_env" by simp
  have accepted: "list_ex (delivered (?env (send seed_env)) c ?v) (active_tokens seed_store seed_device)" for c
    by (simp add: toks delivered_def seed_env_def)
  have refused: "\<not> list_ex
      (delivered (?env (\<lambda>m. Inl ''messaging/registration-token-not-registered'')) c ?v)
      (active_tokens seed_store seed_device)" for c
    by (simp add: toks delivered_def)
  note T = command_status_reflects_deliveries [OF auth limit pass valid owned tokens fresh]
  have "find (\<lambda>c. ac_id c = ''new-AntiTheftCommand'')
     (antiTheftCommands (fst (snd (POST_command (?env (send seed_env)) ?req seed_store empty_redis)))) =
     Some \<lparr> ac_id = ''new-AntiTheftCommand'', ac_deviceId = ''dev-1'', ac_commandType = RING,
          ac_status = SENT, ac_issuedBy = ''user-001'', ac_executedAt = None,
          ac_metadata = JObj [] \<rparr>"
    using T [of "send seed_env"] row [where f = "send seed_env" and st = SENT]
    by (simp only: gen accepted if_True)
  moreover have "find (\<lambda>c. ac_id c = ''new-AntiTheftCommand'')
     (antiTheftCommands (fst (snd (POST_command
        (?env (\<lambda>m. Inl ''messaging/registration-token-not-registered'')) ?req seed_store empty_redis)))) =
     Some \<lparr> ac_id = ''new-AntiTheftCommand'', ac_deviceId = ''dev-1'', ac_commandType = RING,
          ac_status = FAILED, ac_issuedBy = ''user-001'', ac_executedAt = None,
          ac_metadata = JObj [] \<rparr>"
    using T [of "\<lambda>m. Inl ''messaging/registration-token-not-registered''"]
      row [where f = "\<lambda>m. Inl ''messaging/registration-token-not-registered''" and st = FAILED]
    by (simp only: gen refused if_False)
  ultimately show ?thesis unfolding same by (rule conjI)
qed

section \<open>Properties of the rate limiter\<close>




















section \<open>Properties of the location route\<close>

lemma zip_modify:
  "(c, c') \<in> set (zip rows (modify p f rows)) \<Longrightarrow> c' = (if p c then f c else c)"
  unfolding modify_def by (induction rows) auto

lemma find_SomeD: "find p xs = Some x \<Longrightarrow> p x \<and> x \<in> set xs"
  by (induction xs) (auto split: if_splits)

lemma zip_same: "(c, c') \<in> set (zip rows rows) \<Longrightarrow> c' = c"
  by (induction rows) auto

lemma distinct_key_eq:
  "distinct (map key rows) \<Longrightarrow> a \<in> set rows \<Longrightarrow> b \<in> set rows \<Longrightarrow> key a = key b \<Longrightarrow> a = b"
  by (induction rows) (auto simp: image_iff)

lemma location_outcome:
  "snd (POST_location env req s) = s \<or>
   (\<exists>user v d c. verifyAuth (verify env) req = Inr user \<and> LocationSchema (payload req) = Inr v \<and>
      find (\<lambda>d. d_id d = lb_deviceId v \<and> d_userId d = userId user) (devices s) = Some d \<and>
      find (\<lambda>c. ac_id c = lb_commandId v \<and> ac_deviceId c = d_id d \<and> ac_commandType c = LOCATE)
        (antiTheftCommands s) = Some c \<and>
      snd (POST_location env req s) =
        s\<lparr> antiTheftCommands := modify (\<lambda>x. ac_id x = ac_id c) (executed env v) (antiTheftCommands s) \<rparr>)"
  by (auto simp: POST_location_def location_try_def update_unique_def split: sum.splits option.splits)

lemma find_modify_unique:
  assumes "distinct (map key rows)" and "c \<in> set rows" and "key (f c) = key c"
  shows "find (\<lambda>x. key x = key c) (modify (\<lambda>x. key x = key c) f rows) = Some (f c)"
  using assms
proof (induction rows)
  case Nil
  then show ?case by simp
next
  case (Cons r rows)
  show ?case
  proof (cases "key r = key c")
    case True
    then have "r = c"
      using Cons.prems(1,2) by (auto simp: image_iff)
    then show ?thesis using Cons.prems(3) by (simp add: modify_def)
  next
    case False
    then have "c \<in> set rows" using Cons.prems(2) by auto
    then show ?thesis using Cons False by (simp add: modify_def)
  qed
qed

lemma executed_id: "ac_id (executed env v c) = ac_id c"
  by (simp add: executed_def)

lemma location_updates:
  assumes "verifyAuth (verify env) req = Inr user" and "LocationSchema (payload req) = Inr v"
    and "find (\<lambda>d. d_id d = lb_deviceId v \<and> d_userId d = userId user) (devices s) = Some d"
    and "find (\<lambda>c. ac_id c = lb_commandId v \<and> ac_deviceId c = d_id d \<and> ac_commandType c = LOCATE)
           (antiTheftCommands s) = Some c"
  shows "snd (POST_location env req s) =
           s\<lparr> antiTheftCommands := modify (\<lambda>x. ac_id x = ac_id c) (executed env v) (antiTheftCommands s) \<rparr>"
proof -
  have "c \<in> set (antiTheftCommands s)" using find_SomeD [OF assms(4)] by simp
  then have "list_ex (\<lambda>x. ac_id x = ac_id c) (antiTheftCommands s)"
    by (auto simp: list_ex_iff)
  then show ?thesis
    using assms by (simp add: POST_location_def location_try_def update_unique_def)
qed

text \<open>
  C3, as amended. The location handler changes a command row only if it is the LOCATE
  command named by the request and belongs to a device of the caller; the row then
  becomes EXECUTED with the coordinates merged into its metadata. The handler does not
  read the row's current status: every such LOCATE command is set to EXECUTED, whatever
  its status was. A command of another type is left as it is. (Ids are the primary key of
  the table.)
\<close>

theorem location_executes_only_locate:
  assumes pk: "distinct (map ac_id (antiTheftCommands s))"
  shows "length (antiTheftCommands (snd (POST_location env req s))) = length (antiTheftCommands s) \<and>
         (\<forall>(c, c') \<in> set (zip (antiTheftCommands s) (antiTheftCommands (snd (POST_location env req s)))).
            c' = c \<or>
            (ac_commandType c = LOCATE \<and>
             (\<exists>user v d. verifyAuth (verify env) req = Inr user \<and>
                 LocationSchema (payload req) = Inr v \<and>
                 d \<in> set (devices s) \<and> d_id d = lb_deviceId v \<and> d_userId d = userId user \<and>
                 ac_deviceId c = d_id d \<and> ac_id c = lb_commandId v \<and> c' = executed env v c))) \<and>
         (\<forall>user v d c.
            verifyAuth (verify env) req = Inr user \<and> LocationSchema (payload req) = Inr v \<and>
            find (\<lambda>d. d_id d = lb_deviceId v \<and> d_userId d = userId user) (devices s) = Some d \<and>
            find (\<lambda>c. ac_id c = lb_commandId v \<and> ac_deviceId c = d_id d \<and> ac_commandType c = LOCATE)
              (antiTheftCommands s) = Some c
            \<longrightarrow> find (\<lambda>x. ac_id x = ac_id c) (antiTheftCommands (snd (POST_location env req s))) =
                  Some (executed env v c))"
proof (intro conjI)
  let ?cmds = "antiTheftCommands s"
  let ?s' = "snd (POST_location env req s)"
  show "\<forall>user v d c.
            verifyAuth (verify env) req = Inr user \<and> LocationSchema (payload req) = Inr v \<and>
            find (\<lambda>d. d_id d = lb_deviceId v \<and> d_userId d = userId user) (devices s) = Some d \<and>
            find (\<lambda>c. ac_id c = lb_commandId v \<and> ac_deviceId c = d_id d \<and> ac_commandType c = LOCATE)
              (antiTheftCommands s) = Some c
            \<longrightarrow> find (\<lambda>x. ac_id x = ac_id c) (antiTheftCommands ?s') = Some (executed env v c)"
  proof (intro allI impI, elim conjE)
    fix user v d c
    assume a: "verifyAuth (verify env) req = Inr user" "LocationSchema (payload req) = Inr v"
      "find (\<lambda>d. d_id d = lb_deviceId v \<and> d_userId d = userId user) (devices s) = Some d"
      "find (\<lambda>c. ac_id c = lb_commandId v \<and> ac_deviceId c = d_id d \<and> ac_commandType c = LOCATE)
         ?cmds = Some c"
    have "c \<in> set ?cmds" using find_SomeD [OF a(4)] by simp
    then have "find (\<lambda>x. ac_id x = ac_id c) (modify (\<lambda>x. ac_id x = ac_id c) (executed env v) ?cmds) =
               Some (executed env v c)"
      using pk by (intro find_modify_unique) (simp_all add: executed_id)
    then show "find (\<lambda>x. ac_id x = ac_id c) (antiTheftCommands ?s') = Some (executed env v c)"
      by (simp add: location_updates [OF a])
  qed
  consider (same) "?s' = s"
    | (run) user v d c where "verifyAuth (verify env) req = Inr user"
        "LocationSchema (payload req) = Inr v"
        "find (\<lambda>d. d_id d = lb_deviceId v \<and> d_userId d = userId user) (devices s) = Some d"
        "find (\<lambda>c. ac_id c = lb_commandId v \<and> ac_deviceId c = d_id d \<and> ac_commandType c = LOCATE)
           ?cmds = Some c"
        "?s' = s\<lparr> antiTheftCommands := modify (\<lambda>x. ac_id x = ac_id c) (executed env v) ?cmds \<rparr>"
    using location_outcome [of env req s] by blast
  then have both: "length (antiTheftCommands ?s') = length ?cmds \<and>
         (\<forall>(c, c') \<in> set (zip ?cmds (antiTheftCommands ?s')).
            c' = c \<or>
            (ac_commandType c = LOCATE \<and>
             (\<exists>user v d. verifyAuth (verify env) req = Inr user \<and>
                 LocationSchema (payload req) = Inr v \<and>
                 d \<in> set (devices s) \<and> d_id d = lb_deviceId v \<and> d_userId d = userId user \<and>
                 ac_deviceId c = d_id d \<and> ac_id c = lb_commandId v \<and> c' = executed env v c)))"
  proof cases
    case same
    then show ?thesis by (auto dest: zip_same)
  next
    case run
    have target: "c \<in> set ?cmds" "ac_id c = lb_commandId v" "ac_deviceId c = d_id d"
      "ac_commandType c = LOCATE"
      using find_SomeD [OF run(4)] by simp_all
    have dev: "d \<in> set (devices s)" "d_id d = lb_deviceId v" "d_userId d = userId user"
      using find_SomeD [OF run(3)] by simp_all
    have "x' = x \<or> (x = c \<and> x' = executed env v c)"
      if "(x, x') \<in> set (zip ?cmds (modify (\<lambda>x. ac_id x = ac_id c) (executed env v) ?cmds))" for x x'
    proof (cases "ac_id x = ac_id c")
      case True
      have "x \<in> set ?cmds" using that by (rule set_zip_leftD)
      then have "x = c" using distinct_key_eq [OF pk _ target(1) True] by simp
      then show ?thesis using zip_modify [OF that] by simp
    next
      case False
      then show ?thesis using zip_modify [OF that] by simp
    qed
    then show ?thesis
      using run(1,2,5) target dev by (fastforce simp: modify_def)
  qed
  from both show "length (antiTheftCommands ?s') = length ?cmds" by simp
  from both show "\<forall>(c, c') \<in> set (zip ?cmds (antiTheftCommands ?s')).
            c' = c \<or>
            (ac_commandType c = LOCATE \<and>
             (\<exists>user v d. verifyAuth (verify env) req = Inr user \<and>
                 LocationSchema (payload req) = Inr v \<and>
                 d \<in> set (devices s) \<and> d_id d = lb_deviceId v \<and> d_userId d = userId user \<and>
                 ac_deviceId c = d_id d \<and> ac_id c = lb_commandId v \<and> c' = executed env v c))"
    by simp
qed

lemma location_sample_checks:
  "verifyAuth (verify seed_env) (bearer (Validated location_report)) = Inr seed_user"
  "LocationSchema (payload (bearer (Validated location_report))) = Inr location_report"
  "find (\<lambda>d. d_id d = lb_deviceId location_report \<and> d_userId d = userId seed_user)
     (devices command_store) = Some seed_device"
  "find (\<lambda>c. ac_id c = lb_commandId location_report \<and> ac_deviceId c = d_id seed_device \<and>
               ac_commandType c = LOCATE) (antiTheftCommands command_store) = Some seed_command"
  by (simp_all add: verifyAuth_def seed_env_def bearer_def LocationSchema_def location_report_def
      command_store_def seed_store_def seed_device_def seed_user_def seed_command_def)

text \<open>
  As the specification words it, the property fails: the handler sets a LOCATE command
  that is still PENDING to EXECUTED.
\<close>

theorem location_executes_pending_command:
  "ac_status seed_command = PENDING \<and>
   status (fst (POST_location seed_env (bearer (Validated location_report)) command_store)) = 200 \<and>
   map ac_status (antiTheftCommands
     (snd (POST_location seed_env (bearer (Validated location_report)) command_store))) =
     [EXECUTED, SENT]"
proof -
  have "list_ex (\<lambda>x. ac_id x = ac_id seed_command) (antiTheftCommands command_store)"
    by (simp add: command_store_def)
  then have "POST_location seed_env (bearer (Validated location_report)) command_store =
      (success (JObj [(''commandId'', JStr (ac_id seed_command)), (''status'', JStr ''EXECUTED'')]),
       command_store\<lparr> antiTheftCommands :=
          modify (\<lambda>x. ac_id x = ac_id seed_command) (executed seed_env location_report)
            (antiTheftCommands command_store) \<rparr>)"
    using location_sample_checks
    by (simp add: POST_location_def location_try_def update_unique_def)
  then show ?thesis
    by (simp add: success_def respond_def modify_def command_store_def seed_command_def
        ring_command_def executed_def)
qed

theorem location_executes_only_locate_witness:
  "find (\<lambda>x. ac_id x = ''cmd-1'') (antiTheftCommands
      (snd (POST_location seed_env (bearer (Validated location_report)) command_store))) =
     Some (executed seed_env location_report seed_command) \<and>
   antiTheftCommands
      (snd (POST_location seed_env (bearer (Validated location_report)) command_store)) ! 1 =
     ring_command"
proof -
  let ?s' = "snd (POST_location seed_env (bearer (Validated location_report)) command_store)"
  have pk: "distinct (map ac_id (antiTheftCommands command_store))"
    by (simp add: command_store_def seed_command_def ring_command_def)
  note T = location_executes_only_locate [OF pk, of seed_env "bearer (Validated location_report)"]
  have len: "length (antiTheftCommands ?s') = 2"
    using T by (simp add: command_store_def)
  have "(antiTheftCommands command_store ! 1, antiTheftCommands ?s' ! 1)
          \<in> set (zip (antiTheftCommands command_store) (antiTheftCommands ?s'))"
    using len by (simp add: set_zip command_store_def) (rule exI [of _ 1], simp)
  then have "antiTheftCommands ?s' ! 1 = antiTheftCommands command_store ! 1 \<or>
             ac_commandType (antiTheftCommands command_store ! 1) = LOCATE"
    using T by blast
  then have second: "antiTheftCommands ?s' ! 1 = ring_command"
    by (simp add: command_store_def ring_command_def)
  have "find (\<lambda>x. ac_id x = ac_id seed_command) (antiTheftCommands ?s') =
          Some (executed seed_env location_report seed_command)"
    using T location_sample_checks by blast
  then show ?thesis using second by (simp add: seed_command_def)
qed

section \<open>Properties of the login route\<close>

text \<open>
  C10. A login request that the limiter admits and that passes the schema, and that fails
  authentication because the email is unknown, or the account has no password hash, or
  the password does not match, always gets the same response: status 401 with the body
  \<open>{success: false, error: 'Invalid email or password'}\<close>; and the store is left as it
  was.
\<close>

theorem login_failures_indistinguishable:
  assumes admitted: "login_limit env (client_identifier req) = Inr True"
    and valid: "EmailLoginSchema (payload req) = Inr v"
    and fails:
      "find (\<lambda>u. u_email u = lg_email v) (users s) = None \<or>
       (\<exists>user. find (\<lambda>u. u_email u = lg_email v) (users s) = Some user \<and>
          (u_passwordHash user = None \<or> u_passwordHash user = Some [])) \<or>
       (\<exists>user h. find (\<lambda>u. u_email u = lg_email v) (users s) = Some user \<and>
          u_passwordHash user = Some h \<and> \<not> bcrypt_compare env (lg_password v) h)"
  shows "POST_login env req s =
           (Inr \<lparr> status = 401,
                  body = JObj [(''success'', JBool False),
                               (''error'', JStr ''Invalid email or password'')] \<rparr>, s)"
proof -
  have "login_try env req s = (Inr (failure 401 ''Invalid email or password''), s)"
    using fails
  proof (elim disjE exE conjE)
    assume "find (\<lambda>u. u_email u = lg_email v) (users s) = None"
    then show ?thesis using valid by (simp add: login_try_def)
  next
    fix user
    assume "find (\<lambda>u. u_email u = lg_email v) (users s) = Some user"
      and "u_passwordHash user = None"
    then show ?thesis using valid by (simp add: login_try_def)
  next
    fix user
    assume "find (\<lambda>u. u_email u = lg_email v) (users s) = Some user"
      and "u_passwordHash user = Some []"
    then show ?thesis using valid by (simp add: login_try_def)
  next
    fix user h
    assume "find (\<lambda>u. u_email u = lg_email v) (users s) = Some user"
      and "u_passwordHash user = Some h" and "\<not> bcrypt_compare env (lg_password v) h"
    then show ?thesis using valid by (simp add: login_try_def)
  qed
  then show ?thesis
    using admitted by (simp add: POST_login_def failure_def respond_def)
qed

lemma sample_identifier: "client_identifier (login_request mail password) = ''203.0.113.7''"
  by (simp add: client_identifier_def login_request_def trim_def whitespace_def)

theorem login_failures_witness:
  "POST_login seed_env (login_request ''nobody@example.com'' ''guess'') user_store =
     (Inr \<lparr> status = 401, body = JObj [(''success'', JBool False),
        (''error'', JStr ''Invalid email or password'')] \<rparr>, user_store) \<and>
   POST_login seed_env (login_request ''user@example.com'' ''guess'') user_store =
     (Inr \<lparr> status = 401, body = JObj [(''success'', JBool False),
        (''error'', JStr ''Invalid email or password'')] \<rparr>, user_store) \<and>
   POST_login seed_env (login_request ''mail@example.com'' ''guess'') user_store =
     (Inr \<lparr> status = 401, body = JObj [(''success'', JBool False),
        (''error'', JStr ''Invalid email or password'')] \<rparr>, user_store)"
proof -
  have admitted: "login_limit seed_env (client_identifier (login_request mail password)) = Inr True"
    for mail password
    by (simp add: seed_env_def)
  have valid: "EmailLoginSchema (payload (login_request mail ''guess'')) =
      Inr \<lparr> lg_email = mail, lg_password = ''guess'',
         lg_deviceInfo = \<lparr> di_deviceId = ''device-001'', di_deviceName = ''Pixel 8 Pro'',
           di_platform = android, di_osVersion = ''14.0'', di_appVersion = ''1.0.0'' \<rparr> \<rparr>"
    for mail
    by (simp add: EmailLoginSchema_def login_request_def)
  have unknown: "find (\<lambda>u. u_email u = ''nobody@example.com'') (users user_store) = None"
    by (simp add: user_store_def google_user_def email_user_def)
  have nohash: "find (\<lambda>u. u_email u = ''user@example.com'') (users user_store) = Some google_user"
    "u_passwordHash google_user = None"
    by (simp_all add: user_store_def google_user_def email_user_def)
  have mismatch: "find (\<lambda>u. u_email u = ''mail@example.com'') (users user_store) = Some email_user"
    "u_passwordHash email_user = Some ''bcrypt:correct horse''"
    "\<not> bcrypt_compare seed_env ''guess'' ''bcrypt:correct horse''"
    by (simp_all add: user_store_def google_user_def email_user_def seed_env_def)
  show ?thesis
    using login_failures_indistinguishable [OF admitted valid, of "''nobody@example.com''" user_store]
      login_failures_indistinguishable [OF admitted valid, of "''user@example.com''" user_store]
      login_failures_indistinguishable [OF admitted valid, of "''mail@example.com''" user_store]
      unknown nohash mismatch
    by simp
qed

section \<open>Properties of receipt verification\<close>

lemmas parse_eval = parseInt_def whitespace_def digit_def digits_value_def digit_value_def Let_def

lemma parse_samples:
  "parseInt ''1700000000000'' = Num 1700000000000"
  "parseInt ''1702592000000'' = Num 1702592000000"
  by (simp_all add: parse_eval)

text \<open>
  C5. On the production path the expiry is read from the first latest-receipt entry, not
  from the one with the greatest \<open>expires_date_ms\<close>: for the same two entries the
  production call returns the earlier expiry, the sandbox retry the later one.
\<close>

theorem apple_production_takes_first_entry:
  "expiryDate (verifyAppleReceipt (seed_env \<lparr> apple_production := (\<lambda>receipt. AppleData renewed_twice) \<rparr>)
      ''receipt'') = Some (Num 1700000000000) \<and>
   expiryDate (verifyAppleReceipt (seed_env \<lparr> apple_production := (\<lambda>receipt. AppleData redirect),
      apple_sandbox := (\<lambda>receipt. AppleData renewed_twice) \<rparr>) ''receipt'') = Some (Num 1702592000000)"
  by (simp add: verifyAppleReceipt_def verify_production_def verify_sandbox_def latest_of_def
      expiry_date_def expiry_def parse_samples seed_env_def renewed_twice_def redirect_def)

lemma fold_latest:
  assumes "\<forall>e \<in> set (first # rest). \<exists>n. expiry e = Num n"
  shows "foldl (\<lambda>latest current. if greater (expiry current) (expiry latest) then current else latest)
           first rest \<in> set (first # rest) \<and>
         (\<forall>e \<in> set (first # rest). \<not> greater (expiry e)
            (expiry (foldl (\<lambda>latest current. if greater (expiry current) (expiry latest) then current else latest)
               first rest)))"
  using assms
proof (induction rest arbitrary: first)
  case Nil
  then show ?case by auto
next
  case (Cons current rest)
  let ?next = "if greater (expiry current) (expiry first) then current else first"
  obtain a b where ab: "expiry first = Num a" "expiry current = Num b"
    using Cons.prems by auto
  have all: "\<forall>e \<in> set (?next # rest). \<exists>n. expiry e = Num n"
    using Cons.prems by auto
  note IH = Cons.IH [OF all]
  let ?r = "foldl (\<lambda>latest current. if greater (expiry current) (expiry latest) then current else latest)
               ?next rest"
  have mem: "?r \<in> set (first # current # rest)" using IH by auto
  obtain c where c: "expiry ?r = Num c" using Cons.prems mem by auto
  have nx: "\<not> greater (expiry ?next) (expiry ?r)" using IH by simp
  have "\<not> greater (expiry first) (expiry ?r)" "\<not> greater (expiry current) (expiry ?r)"
    using nx ab c by (auto split: if_splits)
  then show ?case using IH mem by auto
qed

lemma sandbox_expiry_greatest:
  assumes secret: "APPLE_SHARED_SECRET env = Some key" "key \<noteq> []"
    and production: "apple_production env receipt = AppleData d" "apple_status d = 21007"
    and sandbox: "apple_sandbox env receipt = AppleData sd"
      "latest_receipt_info sd = Some (first # rest)"
    and numeric: "\<forall>e \<in> set (first # rest). \<exists>ms n. expires_date_ms e = Some ms \<and> ms \<noteq> [] \<and> parseInt ms = Num n"
  shows "\<exists>e \<in> set (first # rest).
           expiryDate (verifyAppleReceipt env receipt) = Some (expiry e) \<and>
           (\<forall>e' \<in> set (first # rest). \<not> greater (expiry e') (expiry e))"
proof -
  let ?r = "foldl (\<lambda>latest current. if greater (expiry current) (expiry latest) then current else latest)
              first rest"
  have nums: "\<forall>e \<in> set (first # rest). \<exists>n. expiry e = Num n"
    using numeric by (fastforce simp: expiry_def)
  note latest = fold_latest [OF nums]
  obtain ms n where ms: "expires_date_ms ?r = Some ms" "ms \<noteq> []" "parseInt ms = Num n"
    using numeric latest by blast
  have "expiryDate (verifyAppleReceipt env receipt) = expiry_date (Some ?r)"
    using secret production sandbox
    by (simp add: verifyAppleReceipt_def verify_production_def verify_sandbox_def latest_of_def)
  also have "\<dots> = Some (expiry ?r)"
    using ms by (simp add: expiry_date_def expiry_def)
  finally show ?thesis using latest by blast
qed

section \<open>Properties of the hash lookup route\<close>


lemma hash_check_lookup:
  assumes "verifyAuth (verify env) req = Inr user"
    and "rateLimit (eval_throws env) (now env) r (''hash_check:'' @ userId user) 50 60 = (Inr limited, r')"
    and "allowed limited"
    and "HashCheckSchema (payload req) = Inr v"
    and "find (\<lambda>d. d_id d = hb_deviceId v \<and> d_userId d = userId user) (devices s) = Some device"
  shows "hash_check_try p env req s r = lookup p env user v device s r'"
  using assms by (simp add: hash_check_try_def)

lemma lookup_exec_fails:
  assumes "snd (check_cache env r (hashes v)) \<noteq> []" and "exec_throws env"
  shows "\<exists>e. lookup p env user v device s r = (Inl (Error e), s, r)"
  using assms
  by (cases p)
     (simp_all add: lookup_def case_prod_beta Let_def exec_and_report_def exec_and_lose_count_def
        pipeline_exec_def ReferenceError_def)

lemma cache_down_all_uncached:
  "mget_throws env \<Longrightarrow> check_cache env r hs = ([], hs)"
  by (simp add: check_cache_def)

lemma hash_check_cache_down_fails:
  assumes auth: "verifyAuth (verify env) req = Inr user"
    and limit: "rateLimit (eval_throws env) (now env) r (''hash_check:'' @ userId user) 50 60 = (Inr limited, r')"
    and pass: "allowed limited"
    and valid: "HashCheckSchema (payload req) = Inr v"
    and owned: "find (\<lambda>d. d_id d = hb_deviceId v \<and> d_userId d = userId user) (devices s) = Some device"
    and down: "mget_throws env" "exec_throws env"
  shows "POST_hash_check p env req s r = (Some (failure 500 ''Hash check failed''), s, r')"
proof -
  have "hashes v \<noteq> []"
    using valid by (auto simp: HashCheckSchema_def split: sum.splits if_splits)
  then have "snd (check_cache env r' (hashes v)) \<noteq> []"
    using down(1) by (simp add: cache_down_all_uncached)
  then obtain e where "lookup p env user v device s r' = (Inl (Error e), s, r')"
    using lookup_exec_fails [OF _ down(2)] by blast
  then have "hash_check_try p env req s r = (Inl (Error e), s, r')"
    using hash_check_lookup [OF auth limit pass valid owned] by simp
  then show ?thesis by (simp add: POST_hash_check_def)
qed

lemma hash_sample_checks:
  "verifyAuth (verify (seed_env \<lparr> mget_throws := a, exec_throws := b \<rparr>)) hash_request = Inr seed_user"
  "allowed \<lparr> allowed = True, remaining = 49 \<rparr>"
  "HashCheckSchema (payload hash_request) = Inr \<lparr> hashes = [replicate 64 (CHR ''a'')], hb_deviceId = ''dev-1'' \<rparr>"
  "find (\<lambda>d. d_id d = hb_deviceId \<lparr> hashes = [replicate 64 (CHR ''a'')], hb_deviceId = ''dev-1'' \<rparr> \<and>
              d_userId d = userId seed_user) (devices seed_store) = Some seed_device"
  by (simp_all add: verifyAuth_def seed_env_def bearer_def hash_request_def HashCheckSchema_def
      seed_store_def seed_device_def seed_user_def)

lemma hash_sample_limit:
  "\<exists>r'. rateLimit (eval_throws (seed_env \<lparr> mget_throws := a, exec_throws := b \<rparr>))
      (now (seed_env \<lparr> mget_throws := a, exec_throws := b \<rparr>)) empty_redis
      (''hash_check:'' @ userId seed_user) 50 60 = (Inr \<lparr> allowed = True, remaining = 49 \<rparr>, r')"
  by (simp add: rateLimit_def rateLimitScript_def seed_env_def empty_redis_def live_def
      zremrangebyscore_def Let_def)

text \<open>
  C7. With the cache out of reach the lookup throws and is caught, and every hash is left
  to the store; but the write-back \<open>await pipeline.exec()\<close> throws too and is not caught.
  Wherever the missing brace is put, the request ends in the outer \<open>catch\<close> with status
  500, not with a result for each hash.
\<close>

theorem hash_check_cache_down:
  "fst (POST_hash_check p (seed_env \<lparr> mget_throws := True, exec_throws := True \<rparr>) hash_request
          seed_store empty_redis) =
     Some \<lparr> status = 500, body = JObj [(''success'', JBool False), (''error'', JStr ''Hash check failed'')] \<rparr>"
proof -
  obtain r' where limit: "rateLimit (eval_throws (seed_env \<lparr> mget_throws := True, exec_throws := True \<rparr>))
      (now (seed_env \<lparr> mget_throws := True, exec_throws := True \<rparr>)) empty_redis
      (''hash_check:'' @ userId seed_user) 50 60 = (Inr \<lparr> allowed = True, remaining = 49 \<rparr>, r')"
    using hash_sample_limit by blast
  show ?thesis
    using hash_check_cache_down_fails [OF hash_sample_checks(1) limit hash_sample_checks(2,3,4), of p]
    by (simp add: failure_def respond_def)
qed
















section \<open>Properties of the registration route\<close>

lemma Platform_of_request: "Platform_of (platform_str p) = None"
  by (cases p) (simp_all add: Platform_of_def)

lemma upsert_device_refused:
  "\<exists>e. upsert_device env user v rows = Inl (Error e)"
  by (simp add: upsert_device_def Platform_of_request)

lemma register_device_fails:
  "\<exists>e. register_device env user v s = (Inl (Error e), s)"
  using upsert_device_refused [of env user v "devices s"]
  by (auto simp: register_device_def)

text \<open>
  Every request that passes authentication, the rate limit and the schema ends the same
  way, whoever owns the device.
\<close>

lemma register_always_fails:
  assumes auth: "verifyAuth (verify env) req = Inr user"
    and limit: "rateLimit (eval_throws env) (now env) r (''device_register:'' @ userId user) 10 60 = (Inr limited, r')"
    and pass: "allowed limited"
    and valid: "RegisterDeviceSchema (payload req) = Inr v"
  shows "POST_register env req s r = (failure 500 ''Device registration failed'', s, r')"
proof -
  obtain e where "register_device env user v s = (Inl (Error e), s)"
    using register_device_fails by blast
  moreover have "e \<noteq> ''Push token belongs to another user''" "e \<noteq> ''Device belongs to another user''"
    using calculation
    by (auto simp: register_device_def upsert_device_def Platform_of_request)
  ultimately show ?thesis
    using assms by (simp add: POST_register_def register_try_def)
qed

text \<open>The check that the handler would make next: a row of another user is refused.\<close>

lemma register_owned_rejects:
  assumes "d_userId device \<noteq> userId user"
  shows "register_owned env user v device s = (Inl (Error ''Device belongs to another user''), s)"
  using assms by (simp add: register_owned_def)

lemmas register_eval = POST_register_def register_try_def verifyAuth_def rateLimit_def
  rateLimitScript_def live_def zremrangebyscore_def RegisterDeviceSchema_def
  register_device_def upsert_device_def Platform_of_def failure_def respond_def Let_def

text \<open>
  C4. The other user names the seeded user's device, and then the seeded user's push
  token. Neither request reaches the ownership check: \<open>device.upsert\<close> is refused for its
  \<open>platform\<close> argument, the outer \<open>catch\<close> finds neither of the two messages it answers
  with 403, and the response is 500 \<open>Device registration failed\<close>. Nothing is written.
\<close>

theorem register_foreign_binding_fails:
  "d_deviceId seed_device = ''device-001'' \<and> d_userId seed_device = ''user-001'' \<and>
   pt_token seed_token = ''push-token-xyz'' \<and> pt_deviceId seed_token = d_id seed_device \<and>
   fst (POST_register seed_env claim_device seed_store empty_redis) =
     \<lparr> status = 500,
       body = JObj [(''success'', JBool False), (''error'', JStr ''Device registration failed'')] \<rparr> \<and>
   fst (snd (POST_register seed_env claim_device seed_store empty_redis)) = seed_store \<and>
   fst (POST_register seed_env claim_token seed_store empty_redis) =
     \<lparr> status = 500,
       body = JObj [(''success'', JBool False), (''error'', JStr ''Device registration failed'')] \<rparr> \<and>
   fst (snd (POST_register seed_env claim_token seed_store empty_redis)) = seed_store"
  by (simp add: register_eval seed_env_def claim_device_def claim_token_def empty_redis_def
      other_user_def seed_device_def seed_token_def)

section \<open>Properties of the scan report route\<close>

lemma createMany_refuses_threatName:
  "rows \<noteq> [] \<Longrightarrow>
   createMany_quarantine (map (\<lambda>(k, threat). quarantine_row env device k threat) rows) s =
     Inl (Error ''Unknown argument `threatName`.'')"
  by (cases rows)
     (auto simp: createMany_quarantine_def known_columns_def quarantine_row_def Quarantine_columns_def)

lemma scan_transaction_fails:
  assumes "threats_of (sr_threats v) \<noteq> []"
  shows "\<exists>e. scan_transaction env user v device c s = Inl (Error e)"
proof -
  have "enumerate 0 (threats_of (sr_threats v)) \<noteq> []"
    using assms by (cases "threats_of (sr_threats v)") simp_all
  then show ?thesis
    using createMany_refuses_threatName [of "enumerate 0 (threats_of (sr_threats v))" env device]
    by (auto simp: scan_transaction_def create_scan_log_def create_keyed_def Let_def
        split: sum.splits)
qed

text \<open>Every report that carries a threat and reaches the transaction ends with status 500.\<close>

lemma scan_report_with_threats_fails:
  assumes auth: "verifyAuth (verify env) req = Inr user"
    and valid: "ScanReportSchema (payload req) = Inr v"
    and owned: "find (\<lambda>d. d_id d = sr_deviceId v \<and> d_userId d = userId user) (devices s) = Some device"
    and order: "sr_startedAt v \<le> (case sr_completedAt v of None \<Rightarrow> now env | Some t \<Rightarrow> t)"
    and threats: "threats_of (sr_threats v) \<noteq> []"
  shows "POST_report env req s = (failure 500 ''Scan report failed'', s)"
proof -
  obtain e where "scan_transaction env user v device
      (case sr_completedAt v of None \<Rightarrow> now env | Some t \<Rightarrow> t) s = Inl (Error e)"
    using scan_transaction_fails [OF threats] by blast
  then show ?thesis
    using auth valid owned order by (simp add: POST_report_def report_try_def Let_def)
qed

lemmas report_eval = POST_report_def report_try_def verifyAuth_def ScanReportSchema_def
  safe_count_def scan_transaction_def create_scan_log_def int4_def
  create_keyed_def scan_log_def createMany_quarantine_def known_columns_def
  signature_exists_def quarantine_row_def Quarantine_columns_def failure_def respond_def Let_def

text \<open>
  C8. The report with \<open>threatsFound: 2\<close> and two entries in \<open>threats\<close>, from the owner of
  the device: \<open>createMany\<close> is refused, the transaction is rolled back, and the response
  is 500 \<open>Scan report failed\<close>. No quarantine row, no telemetry row and no scan log row
  is created. That is so even when every \<open>randomUUID()\<close> is the id of a signature.
\<close>

theorem scan_report_creates_no_rows:
  "sr_threatsFound scan_report = 2 \<and> sr_threats scan_report = Some [trojan, adware] \<and>
   fst (POST_report seed_env (bearer (Validated scan_report)) seed_store) =
     \<lparr> status = 500,
       body = JObj [(''success'', JBool False), (''error'', JStr ''Scan report failed'')] \<rparr> \<and>
   quarantines (snd (POST_report seed_env (bearer (Validated scan_report)) seed_store)) = [] \<and>
   telemetryLogs (snd (POST_report seed_env (bearer (Validated scan_report)) seed_store)) = [] \<and>
   scanLogs (snd (POST_report seed_env (bearer (Validated scan_report)) seed_store)) = [] \<and>
   ts_id seed_signature = ''sig-1'' \<and>
   fst (POST_report matching_env (bearer (Validated scan_report))
          seed_store) =
     \<lparr> status = 500,
       body = JObj [(''success'', JBool False), (''error'', JStr ''Scan report failed'')] \<rparr> \<and>
   snd (POST_report matching_env (bearer (Validated scan_report))
          seed_store) = seed_store"
  by (simp add: report_eval matching_env_def seed_env_def bearer_def scan_report_def seed_store_def seed_device_def
      seed_user_def seed_signature_def)

end
